theory Spec2Isabelle
  imports Main
begin

section \<open>Data model of the compiler configuration (package core)\<close>

text \<open>
  The records follow the Go structs field by field. A Go pointer field
  (\<^verbatim>\<open>*Query\<close>, ...) is an \<open>option\<close>, \<open>None\<close> being \<^verbatim>\<open>nil\<close>; a Go map is a
  partial function; a slice is a list. Several structs share field names
  (\<open>Name\<close>, \<open>Filters\<close>, \<open>Columns\<close>, \<open>Block\<close>, \<open>Presets\<close>): they are written
  qualified (\<open>Role.Name\<close>, \<open>RoleTable.Name\<close>) wherever they are used.
\<close>

record Query =
  Limit :: int
  Filters :: "string list"
  Columns :: "string list"
  DisableFunctions :: bool
  Block :: bool

record Insert =
  Filters :: "string list"
  Columns :: "string list"
  Presets :: "string \<rightharpoonup> string"
  Block :: bool

record Update =
  Filters :: "string list"
  Columns :: "string list"
  Presets :: "string \<rightharpoonup> string"
  Block :: bool

record Upsert =
  Filters :: "string list"
  Columns :: "string list"
  Presets :: "string \<rightharpoonup> string"
  Block :: bool

record Delete =
  Filters :: "string list"
  Columns :: "string list"
  Block :: bool

record RoleTable =
  Name :: string
  Schema :: string
  ReadOnly :: bool
  Query :: "Query option"
  Insert :: "Insert option"
  Update :: "Update option"
  Upsert :: "Upsert option"
  Delete :: "Delete option"

text \<open>
  \<^verbatim>\<open>Role.tm\<close>, the private lookup cache of a role, is built elsewhere and is
  neither read nor written by the functions below; it is left out.
\<close>

record Role =
  Name :: string
  Match :: string
  Tables :: "RoleTable list"

text \<open>
  Of \<^verbatim>\<open>core.Config\<close> the fields that the functions below read or write. The
  type parameter \<open>'f\<close> is \<^verbatim>\<open>refunc\<close>, the type of a resolver constructor;
  \<open>rtmap = None\<close> is the \<^verbatim>\<open>nil\<close> map.
\<close>

record 'f Config =
  DisableAllowList :: bool
  ConfigPath :: string
  DefaultBlock :: bool
  Roles :: "Role list"
  DBType :: string
  DefaultLimit :: int
  Production :: bool
  rtmap :: "(string \<rightharpoonup> 'f) option"

text \<open>Every \<^verbatim>\<open>fmt.Errorf\<close> of the modelled functions is one constructor.\<close>

datatype error =
    UnsupportedObjectType
  | RoleNotFound string
  | TableNotFound string
  | ResolverDefined string
  | DuplicateAuth string
  | AdminSecretKeyNotSet
  | DuplicateAction string
  | InvalidAuthName string string
  | ReadError string
  | InheritedCannotInherit string string
  | DecodeError string
  | IndexOutOfRange

section \<open>The resolver registry: \<^verbatim>\<open>Config.SetResolver\<close>\<close>

text \<open>
  A lookup in a \<^verbatim>\<open>nil\<close> Go map finds nothing, so the registry that
  \<^verbatim>\<open>c.rtmap\<close> denotes is the empty map when the field is \<^verbatim>\<open>nil\<close>.
\<close>

definition registry :: "'f Config \<Rightarrow> (string \<rightharpoonup> 'f)" where
  "registry c = (case rtmap c of None \<Rightarrow> Map.empty | Some m \<Rightarrow> m)"

text \<open>
  The Go method mutates \<^verbatim>\<open>c\<close> and returns an error; the model returns the
  configuration as it is when the method returns, together with the error
  (\<open>None\<close> is \<^verbatim>\<open>nil\<close>). After the first statement \<^verbatim>\<open>c.rtmap\<close> is a map
  \<open>m\<close>: the one it was, or a new empty one when it was \<^verbatim>\<open>nil\<close>.
\<close>

definition SetResolver :: "'f Config \<Rightarrow> string \<Rightarrow> 'f \<Rightarrow> 'f Config \<times> error option" where
  "SetResolver c name fn =
     (let m = (case rtmap c of None \<Rightarrow> Map.empty | Some m \<Rightarrow> m);
          c1 = c\<lparr>rtmap := Some m\<rparr>
      in case m name of
           Some _ \<Rightarrow> (c1, Some (ResolverDefined name))
         | None \<Rightarrow> (c1\<lparr>rtmap := Some (m(name \<mapsto> fn))\<rparr>, None))"

section \<open>Strings\<close>

text \<open>
  \<^verbatim>\<open>strings.SplitN(s, sep, 2)\<close> for a one-byte separator: the text before and
  after the first separator, or the string alone when it has none.
\<close>

definition SplitN2 :: "string \<Rightarrow> char \<Rightarrow> string list" where
  "SplitN2 s sep =
     (if sep \<in> set s
      then [takeWhile (\<lambda>ch. ch \<noteq> sep) s, tl (dropWhile (\<lambda>ch. ch \<noteq> sep) s)]
      else [s])"

text \<open>
  The shared prologue of \<^verbatim>\<open>AddRoleTable\<close> and \<^verbatim>\<open>RemoveRoleTable\<close>:
  \<^verbatim>\<open>if v := strings.SplitN(table, ".", 2); len(v) == 2 { schema = v[0]; table = v[1] }\<close>.
  The result is \<open>(schema, table)\<close>.
\<close>

definition schema_table :: "string \<Rightarrow> string \<times> string" where
  "schema_table table =
     (case SplitN2 table (CHR ''.'') of
        [v0, v1] \<Rightarrow> (v0, v1)
      | _ \<Rightarrow> ('''', table))"

section \<open>Role tables: \<^verbatim>\<open>Config.AddRoleTable\<close> and \<^verbatim>\<open>Config.RemoveRoleTable\<close>\<close>

text \<open>
  Both functions compare names with \<^verbatim>\<open>strings.EqualFold\<close> of Go's standard
  library, which decodes UTF-8 and compares under Unicode simple case folding.
  It lies outside the repository and is a parameter of everything in this
  section, the first argument, written \<open>EqualFold\<close>; the properties are proved
  for every such function (the invariant's preservation for every symmetric
  one, as Go's is).

  The two search loops, \<^verbatim>\<open>for i := range ... { if strings.EqualFold(...) { ...; break } }\<close>:
  the index of the first match, \<open>None\<close> when the loop ends without one.
\<close>

fun role_index :: "(string \<Rightarrow> string \<Rightarrow> bool) \<Rightarrow> Role list \<Rightarrow> string \<Rightarrow> nat option" where
  "role_index EqualFold [] role = None"
| "role_index EqualFold (r # rs) role =
     (if EqualFold (Role.Name r) role then Some 0
      else map_option Suc (role_index EqualFold rs role))"

fun table_index ::
  "(string \<Rightarrow> string \<Rightarrow> bool) \<Rightarrow> RoleTable list \<Rightarrow> string \<Rightarrow> string \<Rightarrow> nat option" where
  "table_index EqualFold [] table schema = None"
| "table_index EqualFold (t # ts) table schema =
     (if EqualFold (RoleTable.Name t) table \<and> EqualFold (RoleTable.Schema t) schema then Some 0
      else map_option Suc (table_index EqualFold ts table schema))"

text \<open>
  The dynamic type of the \<^verbatim>\<open>conf interface{}\<close> argument: the five cases of the
  type switch, and \<open>ConfOther\<close> for every other value (the \<^verbatim>\<open>default\<close> branch).
\<close>

datatype conf =
    ConfQuery Query
  | ConfInsert Insert
  | ConfUpdate Update
  | ConfUpsert Upsert
  | ConfDelete Delete
  | ConfOther

text \<open>The type switch: the table after the assignment, and the error returned.\<close>

fun set_conf :: "conf \<Rightarrow> RoleTable \<Rightarrow> RoleTable \<times> error option" where
  "set_conf (ConfQuery v) t = (t\<lparr>Query := Some v\<rparr>, None)"
| "set_conf (ConfInsert v) t = (t\<lparr>Insert := Some v\<rparr>, None)"
| "set_conf (ConfUpdate v) t = (t\<lparr>Update := Some v\<rparr>, None)"
| "set_conf (ConfUpsert v) t = (t\<lparr>Upsert := Some v\<rparr>, None)"
| "set_conf (ConfDelete v) t = (t\<lparr>Delete := Some v\<rparr>, None)"
| "set_conf ConfOther t = (t, Some UnsupportedObjectType)"

text \<open>\<^verbatim>\<open>Role{Name: role}\<close> and \<^verbatim>\<open>RoleTable{Name: table, Schema: schema}\<close>: all other fields zero.\<close>

definition new_role :: "string \<Rightarrow> Role" where
  "new_role role = \<lparr>Role.Name = role, Match = '''', Tables = []\<rparr>"

definition new_table :: "string \<Rightarrow> string \<Rightarrow> RoleTable" where
  "new_table table schema =
     \<lparr>RoleTable.Name = table, Schema = schema, ReadOnly = False,
      Query = None, Insert = None, Update = None, Upsert = None, Delete = None\<rparr>"

text \<open>
  \<^verbatim>\<open>AddRoleTable\<close> mutates the configuration through the pointers \<^verbatim>\<open>r\<close> and
  \<^verbatim>\<open>t\<close> into \<^verbatim>\<open>c.Roles\<close> and \<^verbatim>\<open>r.Tables\<close>; the model carries the index each
  pointer refers to and writes the element back. The role and the table are
  appended before the type switch, so they stay appended when the switch
  returns the error.
\<close>

definition AddRoleTable ::
  "(string \<Rightarrow> string \<Rightarrow> bool) \<Rightarrow> 'f Config \<Rightarrow> string \<Rightarrow> string \<Rightarrow> conf \<Rightarrow>
     'f Config \<times> error option" where
  "AddRoleTable EqualFold c role table cf =
     (let (roles1, ri) =
            (case role_index EqualFold (Roles c) role of
               Some i \<Rightarrow> (Roles c, i)
             | None \<Rightarrow> (Roles c @ [new_role role], length (Roles c)));
          r = roles1 ! ri;
          (schema, table1) = schema_table table;
          (tables1, ti) =
            (case table_index EqualFold (Tables r) table1 schema of
               Some i \<Rightarrow> (Tables r, i)
             | None \<Rightarrow> (Tables r @ [new_table table1 schema], length (Tables r)));
          (t, err) = set_conf cf (tables1 ! ti)
      in (c\<lparr>Roles := roles1[ri := r\<lparr>Tables := tables1[ti := t]\<rparr>]\<rparr>, err))"

text \<open>
  \<^verbatim>\<open>append(xs[:i], xs[i+1:]...)\<close>: the slice without its element \<open>i\<close>.
\<close>

definition remove_at :: "nat \<Rightarrow> 'a list \<Rightarrow> 'a list" where
  "remove_at i xs = take i xs @ drop (i + 1) xs"

text \<open>
  \<^verbatim>\<open>RemoveRoleTable\<close> returns before its first assignment on both error paths,
  so the configuration returned with an error is the one it was given.
\<close>

definition RemoveRoleTable ::
  "(string \<Rightarrow> string \<Rightarrow> bool) \<Rightarrow> 'f Config \<Rightarrow> string \<Rightarrow> string \<Rightarrow> 'f Config \<times> error option" where
  "RemoveRoleTable EqualFold c role table =
     (case role_index EqualFold (Roles c) role of
        None \<Rightarrow> (c, Some (RoleNotFound role))
      | Some ri \<Rightarrow>
          (let tables = Tables (Roles c ! ri);
               (schema, table1) = schema_table table
           in case table_index EqualFold tables table1 schema of
                None \<Rightarrow> (c, Some (TableNotFound table1))
              | Some ti \<Rightarrow>
                  (let roles1 = (Roles c)[ri := (Roles c ! ri)\<lparr>Tables := remove_at ti tables\<rparr>];
                       roles2 = (if length (Tables (roles1 ! ri)) = 0
                                 then remove_at ri roles1 else roles1)
                   in (c\<lparr>Roles := roles2\<rparr>, None))))"

text \<open>
  The invariant of the role list: no two roles have names that are equal under
  case folding, and within each role no two tables agree, under case folding,
  on both schema and name.
\<close>

definition roles_unique :: "(string \<Rightarrow> string \<Rightarrow> bool) \<Rightarrow> Role list \<Rightarrow> bool" where
  "roles_unique EqualFold rs =
     (\<forall>i < length rs. \<forall>j < length rs.
        i \<noteq> j \<longrightarrow> \<not> EqualFold (Role.Name (rs ! i)) (Role.Name (rs ! j)))"

definition tables_unique :: "(string \<Rightarrow> string \<Rightarrow> bool) \<Rightarrow> RoleTable list \<Rightarrow> bool" where
  "tables_unique EqualFold ts =
     (\<forall>i < length ts. \<forall>j < length ts.
        i \<noteq> j \<longrightarrow>
        \<not> (EqualFold (RoleTable.Name (ts ! i)) (RoleTable.Name (ts ! j)) \<and>
           EqualFold (RoleTable.Schema (ts ! i)) (RoleTable.Schema (ts ! j))))"

definition config_inv :: "(string \<Rightarrow> string \<Rightarrow> bool) \<Rightarrow> 'f Config \<Rightarrow> bool" where
  "config_inv EqualFold c =
     (roles_unique EqualFold (Roles c) \<and>
      (\<forall>r \<in> set (Roles c). tables_unique EqualFold (Tables r)))"

text \<open>
  What the search loops find, stated on the lists: \<open>role_at EqualFold rs role i\<close>
  says that \<open>i\<close> is the first index whose role name equals \<open>role\<close> under case
  folding; \<open>table_at EqualFold ts table schema k\<close> says the same of the first
  table that matches on name and schema.
\<close>

definition role_at :: "(string \<Rightarrow> string \<Rightarrow> bool) \<Rightarrow> Role list \<Rightarrow> string \<Rightarrow> nat \<Rightarrow> bool" where
  "role_at EqualFold rs role i =
     (i < length rs \<and> EqualFold (Role.Name (rs ! i)) role \<and>
      (\<forall>j < i. \<not> EqualFold (Role.Name (rs ! j)) role))"

definition table_matches ::
  "(string \<Rightarrow> string \<Rightarrow> bool) \<Rightarrow> RoleTable \<Rightarrow> string \<Rightarrow> string \<Rightarrow> bool" where
  "table_matches EqualFold t table schema =
     (EqualFold (RoleTable.Name t) table \<and> EqualFold (RoleTable.Schema t) schema)"

definition table_at ::
  "(string \<Rightarrow> string \<Rightarrow> bool) \<Rightarrow> RoleTable list \<Rightarrow> string \<Rightarrow> string \<Rightarrow> nat \<Rightarrow> bool" where
  "table_at EqualFold ts table schema k =
     (k < length ts \<and> table_matches EqualFold (ts ! k) table schema \<and>
      (\<forall>j < k. \<not> table_matches EqualFold (ts ! j) table schema))"

section \<open>Service start-up (package serv): \<^verbatim>\<open>validateConf\<close> and \<^verbatim>\<open>initConfig\<close>\<close>

text \<open>
  The declarations of \<^verbatim>\<open>serv.Config\<close> and \<^verbatim>\<open>service\<close> are not among the
  source files; the records hold the fields that \<^verbatim>\<open>validateConf\<close> and
  \<^verbatim>\<open>initConfig\<close> read or write, under the names used there. \<open>Core\<close> is the
  embedded compiler configuration, \<open>Serv_Production\<close> is \<^verbatim>\<open>c.Serv.Production\<close>
  (\<^verbatim>\<open>c.Core.Production\<close> is \<open>Production (Core c)\<close>). The service holds
  \<^verbatim>\<open>s.conf\<close>, a pointer that \<^verbatim>\<open>initConfig\<close> also names \<^verbatim>\<open>c\<close>, the stored
  digest \<^verbatim>\<open>s.asec\<close> of type \<open>'h\<close>, and the lines written to \<^verbatim>\<open>s.log\<close>.
\<close>

record Auth =
  Name :: string
  Type :: string

record Action =
  Name :: string
  AuthName :: string

record Database =
  Type :: string

record 'f ServConfig =
  Core :: "'f Config"
  Serv_Production :: bool
  HotDeploy :: bool
  AdminSecretKey :: string
  HostPort :: string
  Host :: string
  Port :: string
  AuthFailBlock :: bool
  Auth :: Auth
  Auths :: "Auth list"
  DB :: Database
  Actions :: "Action list"
  hostPort :: string
  dirty :: bool

datatype log_line = Warn string

record ('f, 'h) service =
  conf :: "'f ServConfig"
  asec :: 'h
  log :: "log_line list"

text \<open>
  \<^verbatim>\<open>validateConf\<close> has no result and no return statement: it always runs to
  its end. The loop over the roles only computes \<^verbatim>\<open>anonFound\<close>.
\<close>

definition anonFound :: "Role list \<Rightarrow> bool" where
  "anonFound rs = (\<exists>r \<in> set rs. Role.Name r = ''anon'')"

definition validateConf :: "('f, 'h) service \<Rightarrow> ('f, 'h) service" where
  "validateConf s =
     (if \<not> anonFound (Roles (Core (conf s))) \<and> DefaultBlock (Core (conf s))
      then s\<lparr>log := log s @ [Warn ''unauthenticated requests will be blocked. no role 'anon' defined''],
             conf := (conf s)\<lparr>AuthFailBlock := False\<rparr>\<rparr>
      else s)"

text \<open>
  The two validation loops of \<^verbatim>\<open>initConfig\<close>. \<open>am\<close> and \<open>axm\<close> are the sets of
  names seen so far (Go maps to the empty struct). The first loop returns the
  set it built, which the second loop reads.
\<close>

fun auths_loop :: "Auth list \<Rightarrow> string set \<Rightarrow> error + string set" where
  "auths_loop [] am = Inr am"
| "auths_loop (a # as) am =
     (if Auth.Name a \<in> am then Inl (DuplicateAuth (Auth.Name a))
      else auths_loop as (insert (Auth.Name a) am))"

fun actions_loop :: "Action list \<Rightarrow> string set \<Rightarrow> string set \<Rightarrow> error option" where
  "actions_loop [] am axm = None"
| "actions_loop (a # as) am axm =
     (if Action.Name a \<in> axm then Some (DuplicateAction (Action.Name a))
      else if AuthName a \<notin> am then Some (InvalidAuthName (AuthName a) (Action.Name a))
      else actions_loop as am (insert (Action.Name a) axm))"

text \<open>
  The host and port block: \<^verbatim>\<open>strings.SplitN(s.conf.HostPort, ":", 2)\<close>, the two
  overrides, \<^verbatim>\<open>fmt.Sprintf("%s:%s", hp[0], hp[1])\<close>, and the default.
  \<open>defaultHP\<close> is a constant declared outside the source files.
\<close>

definition set_hostPort :: "string \<Rightarrow> 'f ServConfig \<Rightarrow> 'f ServConfig" where
  "set_hostPort defaultHP c =
     (let c1 = (case SplitN2 (HostPort c) (CHR '':'') of
                  [hp0, hp1] \<Rightarrow>
                    c\<lparr>hostPort := (if Host c \<noteq> '''' then Host c else hp0) @ '':'' @
                                   (if Port c \<noteq> '''' then Port c else hp1)\<rparr>
                | _ \<Rightarrow> c)
      in if hostPort c1 = '''' then c1\<lparr>hostPort := defaultHP\<rparr> else c1)"

text \<open>
  \<^verbatim>\<open>initConfig\<close> writes through \<^verbatim>\<open>c\<close> and \<^verbatim>\<open>s\<close> as it goes and returns at
  the first failed check, so the model returns the service as it is at that
  return, with the error. \<open>Sum256\<close> is \<^verbatim>\<open>sha256.Sum256\<close> of Go's standard
  library applied to the bytes of the key.
\<close>

definition initConfig ::
  "(string \<Rightarrow> 'h) \<Rightarrow> string \<Rightarrow> ('f, 'h) service \<Rightarrow> ('f, 'h) service \<times> error option" where
  "initConfig Sum256 defaultHP s =
     (let c1 = (conf s)\<lparr>dirty := True\<rparr>;
          c2 = (if DBType (Core c1) = ''''
                then c1\<lparr>Core := (Core c1)\<lparr>DBType := Database.Type (DB c1)\<rparr>\<rparr> else c1);
          s2 = s\<lparr>conf := c2\<rparr>
      in case auths_loop (Auths c2) {} of
           Inl e \<Rightarrow> (s2, Some e)
         | Inr am \<Rightarrow>
             if HotDeploy c2 \<and> AdminSecretKey c2 = '''' then (s2, Some AdminSecretKeyNotSet)
             else
               (let s3 = (if HotDeploy c2 then s2\<lparr>asec := Sum256 (AdminSecretKey c2)\<rparr> else s2)
                in case actions_loop (Actions c2) am {} of
                     Some e \<Rightarrow> (s3, Some e)
                   | None \<Rightarrow>
                       (let c4 = (if Auth.Type (Auth c2) = '''' \<or> Auth.Type (Auth c2) = ''none''
                                  then c2\<lparr>Core := (Core c2)\<lparr>DefaultBlock := False\<rparr>\<rparr> else c2);
                            c5 = set_hostPort defaultHP c4;
                            c6 = c5\<lparr>Core := (Core c5)\<lparr>Production := Serv_Production c5\<rparr>\<rparr>
                        in (s3\<lparr>conf := c6\<rparr>, None))))"

section \<open>Reading the configuration file: \<^verbatim>\<open>readInConfig\<close>\<close>

text \<open>
  \<^verbatim>\<open>readInConfig\<close> drives the viper library. Of a viper instance the model
  keeps what the function uses: the explicit configuration file
  (\<^verbatim>\<open>SetConfigFile\<close>, \<^verbatim>\<open>ConfigFileUsed\<close>), the name and the search paths
  (\<^verbatim>\<open>SetConfigName\<close>, \<^verbatim>\<open>AddConfigPath\<close>), and the settings read from files,
  a map from key to value.
\<close>

record Viper =
  configFile :: string
  configName :: string
  configPaths :: "string list"
  config :: "string \<rightharpoonup> string"

text \<open>
  What lies outside the repository is a parameter: the \<^verbatim>\<open>filepath\<close>
  functions, the file system in effect (the argument \<^verbatim>\<open>fs\<close>, or the operating
  system's when it is \<^verbatim>\<open>nil\<close>) as the search for a named configuration file
  and the reading and parsing of a file, the process environment,
  \<^verbatim>\<open>util.SetKeyValue\<close>, and the decoding of the settings into a \<^verbatim>\<open>Config\<close>.
  A failure of the library is \<open>Inl\<close> with its message.
\<close>

record 'f sys =
  filepath_Dir :: "string \<Rightarrow> string"
  filepath_Base :: "string \<Rightarrow> string"
  filepath_Ext :: "string \<Rightarrow> string"
  filepath_Join :: "string \<Rightarrow> string \<Rightarrow> string"
  findConfigFile :: "string \<Rightarrow> string list \<Rightarrow> string + string"
  readConfigFile :: "string \<Rightarrow> string + (string \<rightharpoonup> string)"
  Environ :: "string list"
  SetKeyValue :: "Viper \<Rightarrow> string \<Rightarrow> string \<Rightarrow> Viper"
  Unmarshal :: "Viper \<Rightarrow> 'f Config \<Rightarrow> string + 'f Config"

definition newViper :: "'f sys \<Rightarrow> string \<Rightarrow> string \<Rightarrow> Viper" where
  "newViper w cpath cfile =
     (if filepath_Ext w cfile \<noteq> ''''
      then \<lparr>configFile = filepath_Join w cpath cfile, configName = '''',
            configPaths = [], config = Map.empty\<rparr>
      else \<lparr>configFile = '''', configName = cfile,
            configPaths = [cpath, ''./config''], config = Map.empty\<rparr>)"

text \<open>
  The library calls, by their documented behaviour. \<^verbatim>\<open>ReadInConfig\<close> locates the
  file (the explicit one, or else the first found under the name), reads it and
  replaces the settings; \<^verbatim>\<open>MergeInConfig\<close> does the same but merges the file
  over the settings already there, the file's value winning on a key both have;
  \<^verbatim>\<open>SetConfigFile\<close> ignores the empty string; \<^verbatim>\<open>GetString\<close> of an unset key
  is the empty string.
\<close>

definition getConfigFile :: "'f sys \<Rightarrow> Viper \<Rightarrow> error + Viper" where
  "getConfigFile w vi =
     (if configFile vi = ''''
      then (case findConfigFile w (configName vi) (configPaths vi) of
              Inl e \<Rightarrow> Inl (ReadError e)
            | Inr file \<Rightarrow> Inr (vi\<lparr>configFile := file\<rparr>))
      else Inr vi)"

definition ReadInConfig :: "'f sys \<Rightarrow> Viper \<Rightarrow> error + Viper" where
  "ReadInConfig w vi =
     (case getConfigFile w vi of
        Inl e \<Rightarrow> Inl e
      | Inr vi1 \<Rightarrow>
          (case readConfigFile w (configFile vi1) of
             Inl e \<Rightarrow> Inl (ReadError e)
           | Inr cfg \<Rightarrow> Inr (vi1\<lparr>config := cfg\<rparr>)))"

definition MergeInConfig :: "'f sys \<Rightarrow> Viper \<Rightarrow> error + Viper" where
  "MergeInConfig w vi =
     (case getConfigFile w vi of
        Inl e \<Rightarrow> Inl e
      | Inr vi1 \<Rightarrow>
          (case readConfigFile w (configFile vi1) of
             Inl e \<Rightarrow> Inl (ReadError e)
           | Inr cfg \<Rightarrow> Inr (vi1\<lparr>config := config vi1 ++ cfg\<rparr>)))"

definition SetConfigFile :: "Viper \<Rightarrow> string \<Rightarrow> Viper" where
  "SetConfigFile vi file = (if file \<noteq> '''' then vi\<lparr>configFile := file\<rparr> else vi)"

definition GetString :: "Viper \<Rightarrow> string \<Rightarrow> string" where
  "GetString vi key = (case config vi key of None \<Rightarrow> '''' | Some v \<Rightarrow> v)"

text \<open>
  The loop over \<^verbatim>\<open>os.Environ()\<close>. An entry with the prefix and no \<open>=\<close> makes
  \<^verbatim>\<open>kv[1]\<close> panic.
\<close>

fun environ_loop :: "'f sys \<Rightarrow> string list \<Rightarrow> Viper \<Rightarrow> error + Viper" where
  "environ_loop w [] vi = Inr vi"
| "environ_loop w (e # es) vi =
     (if take 3 e = ''GJ_'' \<or> take 3 e = ''SJ_''
      then (case SplitN2 e (CHR ''='') of
              [k, v] \<Rightarrow> environ_loop w es (SetKeyValue w vi k v)
            | _ \<Rightarrow> Inl IndexOutOfRange)
      else environ_loop w es vi)"

text \<open>\<^verbatim>\<open>&Config{ConfigPath: ...}\<close>: every other field zero.\<close>

definition zero_Config :: "string \<Rightarrow> 'f Config" where
  "zero_Config cpath =
     \<lparr>DisableAllowList = False, ConfigPath = cpath, DefaultBlock = False, Roles = [],
      DBType = '''', DefaultLimit = 0, Production = False, rtmap = None\<rparr>"

text \<open>The end of \<^verbatim>\<open>readInConfig\<close>, from the loop over the environment on.\<close>

definition decode_config :: "'f sys \<Rightarrow> Viper \<Rightarrow> error + 'f Config" where
  "decode_config w vi =
     (case environ_loop w (Environ w) vi of
        Inl e \<Rightarrow> Inl e
      | Inr vi1 \<Rightarrow>
          (case Unmarshal w vi1 (zero_Config (filepath_Dir w (configFile vi1))) of
             Inl e \<Rightarrow> Inl (DecodeError e)
           | Inr c \<Rightarrow> Inr c))"

definition readInConfig :: "'f sys \<Rightarrow> string \<Rightarrow> error + 'f Config" where
  "readInConfig w cfile =
     (let cp = filepath_Dir w cfile;
          vi = newViper w cp (filepath_Base w cfile)
      in case ReadInConfig w vi of
           Inl e \<Rightarrow> Inl e
         | Inr vi1 \<Rightarrow>
             (let pcf = GetString vi1 ''inherits'' in
              if pcf \<noteq> '''' then
                (let cf = configFile vi1 in
                 case ReadInConfig w (newViper w cp pcf) of
                   Inl e \<Rightarrow> Inl e
                 | Inr vi2 \<Rightarrow>
                     (let v = GetString vi2 ''inherits'' in
                      if v \<noteq> '''' then Inl (InheritedCannotInherit pcf v)
                      else (case MergeInConfig w (SetConfigFile vi2 cf) of
                              Inl e \<Rightarrow> Inl e
                            | Inr vi3 \<Rightarrow> decode_config w vi3)))
              else decode_config w vi1))"

section \<open>Compiler policies that the configuration declares\<close>

text \<open>
  Modelled from the spec: the compile entry point and the Allow-List Store
  (spec sections 4.2 and 4.4); their code is not among the source files, only
  the flags \<^verbatim>\<open>Config.Production\<close> and \<^verbatim>\<open>Config.DisableAllowList\<close> are. The
  deployment is locked when production mode is on and the allow list is not
  disabled. A fingerprint found in the store is served from it. One that is
  absent fails closed with \<open>AccessDeniedError\<close> when locked; when unlocked it
  is compiled, SQL is generated, and a success is inserted into the store. The
  trace records every compilation and every SQL generation attempt.
\<close>

datatype gj_error = ParseError | CompileError | AccessDeniedError | GenerationError

datatype event = Compile string | GenerateSQL string

record 'a engine =
  store :: "string \<rightharpoonup> 'a"
  trace :: "event list"

definition locked :: "'f Config \<Rightarrow> bool" where
  "locked c = (Production c \<and> \<not> DisableAllowList c)"

definition compile_query ::
  "'f Config \<Rightarrow> (string \<Rightarrow> gj_error + 't) \<Rightarrow> ('t \<Rightarrow> gj_error + 'a) \<Rightarrow>
     'a engine \<Rightarrow> string \<Rightarrow> (gj_error + 'a) \<times> 'a engine" where
  "compile_query c qcompile sqlgen st fp =
     (case store st fp of
        Some a \<Rightarrow> (Inr a, st)
      | None \<Rightarrow>
          if locked c then (Inl AccessDeniedError, st)
          else
            (case qcompile fp of
               Inl e \<Rightarrow> (Inl e, st\<lparr>trace := trace st @ [Compile fp]\<rparr>)
             | Inr sel \<Rightarrow>
                 (case sqlgen sel of
                    Inl e \<Rightarrow> (Inl e, st\<lparr>trace := trace st @ [Compile fp, GenerateSQL fp]\<rparr>)
                  | Inr a \<Rightarrow>
                      (Inr a, st\<lparr>store := (store st)(fp \<mapsto> a),
                                 trace := trace st @ [Compile fp, GenerateSQL fp]\<rparr>))))"

text \<open>
  Modelled from the spec: the merge of presets into a mutation's column to value
  map (spec section 4.2, step 5: "merges presets into the column to value map,
  with preset values unconditionally winning"); the compiler that does it is not
  among the source files, only the \<^verbatim>\<open>Presets\<close> fields of \<^verbatim>\<open>Insert\<close>,
  \<^verbatim>\<open>Update\<close> and \<^verbatim>\<open>Upsert\<close> are. A \<^verbatim>\<open>nil\<close> policy has no presets.
\<close>

datatype mutation = InsertOp | UpdateOp | UpsertOp

fun presets_of :: "RoleTable \<Rightarrow> mutation \<Rightarrow> (string \<rightharpoonup> string)" where
  "presets_of t InsertOp = (case RoleTable.Insert t of None \<Rightarrow> Map.empty | Some p \<Rightarrow> Insert.Presets p)"
| "presets_of t UpdateOp = (case RoleTable.Update t of None \<Rightarrow> Map.empty | Some p \<Rightarrow> Update.Presets p)"
| "presets_of t UpsertOp = (case RoleTable.Upsert t of None \<Rightarrow> Map.empty | Some p \<Rightarrow> Upsert.Presets p)"

definition write_payload :: "RoleTable \<Rightarrow> mutation \<Rightarrow> (string \<rightharpoonup> string) \<Rightarrow> (string \<rightharpoonup> string)" where
  "write_payload t m input = input ++ presets_of t m"

text \<open>
  Modelled from the spec: the effective row limit of a compiled query (spec
  section 3: "Effective row limit = minimum of (client-requested limit,
  RoleTable Query limit, global default limit)"); the compiler that computes it
  is not among the source files, only \<^verbatim>\<open>Query.Limit\<close> and
  \<^verbatim>\<open>Config.DefaultLimit\<close> are.
\<close>

definition effective_limit :: "'f Config \<Rightarrow> Query \<Rightarrow> int \<Rightarrow> int" where
  "effective_limit c q requested = min requested (min (Limit q) (DefaultLimit c))"

section \<open>Example inputs\<close>

text \<open>
  Concrete configurations on which the properties below are evaluated. The
  resolver constructors of the examples are named by strings.
\<close>

definition conf0 :: "string Config" where
  "conf0 = \<lparr>DisableAllowList = False, ConfigPath = ''./config'', DefaultBlock = True,
            Roles = [], DBType = ''postgres'', DefaultLimit = 20, Production = False,
            rtmap = None\<rparr>"

definition conf_prod :: "string Config" where
  "conf_prod = conf0\<lparr>Production := True\<rparr>"

definition user_role :: Role where
  "user_role = \<lparr>Role.Name = ''user'', Match = '''', Tables = []\<rparr>"

text \<open>
  In the examples the digest is symbolic: \<open>Zero\<close> is the zero value that
  \<^verbatim>\<open>s.asec\<close> holds before \<^verbatim>\<open>initConfig\<close> runs, \<open>Digest k\<close> stands for the
  SHA-256 digest of \<open>k\<close>.
\<close>

datatype digest = Zero | Digest string

definition sconf0 :: "string ServConfig" where
  "sconf0 = \<lparr>Core = conf0\<lparr>Roles := [user_role]\<rparr>, Serv_Production = True, HotDeploy = False,
             AdminSecretKey = '''', HostPort = ''0.0.0.0:8080'', Host = '''', Port = '''',
             AuthFailBlock = True, Auth = \<lparr>Auth.Name = '''', Auth.Type = ''none''\<rparr>, Auths = [],
             DB = \<lparr>Database.Type = ''postgres''\<rparr>, Actions = [], hostPort = '''', dirty = False\<rparr>"

definition serv0 :: "(string, digest) service" where
  "serv0 = \<lparr>conf = sconf0, asec = Zero, log = []\<rparr>"

definition jwt_auth :: Auth where
  "jwt_auth = \<lparr>Auth.Name = ''jwt'', Auth.Type = ''jwt''\<rparr>"

definition serv_dup :: "(string, digest) service" where
  "serv_dup = serv0\<lparr>conf := sconf0\<lparr>HotDeploy := True, AdminSecretKey := ''secret'',
                                      Auths := [jwt_auth, jwt_auth]\<rparr>\<rparr>"

definition serv_hot :: "(string, digest) service" where
  "serv_hot = serv0\<lparr>conf := sconf0\<lparr>HotDeploy := True, AdminSecretKey := ''secret'',
                                      Auths := [jwt_auth]\<rparr>\<rparr>"

definition engine0 :: "string engine" where
  "engine0 = \<lparr>store = [''query getUsers'' \<mapsto> ''SELECT 1''], trace = []\<rparr>"

definition posts_table :: RoleTable where
  "posts_table = (new_table ''posts'' '''')
     \<lparr>Insert := Some \<lparr>Insert.Filters = [], Insert.Columns = [],
                      Insert.Presets = [''user_id'' \<mapsto> ''$user_id''], Insert.Block = False\<rparr>\<rparr>"


text \<open>
  The examples use ASCII names only. On ASCII strings \<^verbatim>\<open>strings.EqualFold\<close>
  is the loop below (its fast path): equal bytes match, and two different bytes
  match when the smaller one is an upper-case letter and the larger one is that
  letter in lower case; at the end both strings must be used up. It stands for
  the parameter \<open>EqualFold\<close> in the examples and nowhere else.
\<close>

definition ascii_fold_eq :: "char \<Rightarrow> char \<Rightarrow> bool" where
  "ascii_fold_eq a b =
     (let sr = min (of_char a :: nat) (of_char b); tr = max (of_char a :: nat) (of_char b)
      in tr = sr \<or> (65 \<le> sr \<and> sr \<le> 90 \<and> tr = sr + 32))"

fun EqualFold_ascii :: "string \<Rightarrow> string \<Rightarrow> bool" where
  "EqualFold_ascii [] [] = True"
| "EqualFold_ascii (a # s) (b # t) = (ascii_fold_eq a b \<and> EqualFold_ascii s t)"
| "EqualFold_ascii _ _ = False"

definition users_table :: RoleTable where
  "users_table = new_table ''users'' ''public''"

definition audit_table :: RoleTable where
  "audit_table = new_table ''audit'' ''''"

definition query_policy :: Query where
  "query_policy = \<lparr>Limit = 10, Filters = [], Columns = [''id''], DisableFunctions = False, Block = False\<rparr>"

definition delete_policy :: Delete where
  "delete_policy = \<lparr>Delete.Filters = [''{ user_id: { eq: $user_id } }''], Delete.Columns = [],
                     Delete.Block = False\<rparr>"

definition conf_roles :: "string Config" where
  "conf_roles = conf0\<lparr>Roles :=
     [\<lparr>Role.Name = ''user'', Match = '''', Tables = [users_table, posts_table]\<rparr>,
      \<lparr>Role.Name = ''admin'', Match = '''', Tables = [audit_table]\<rparr>]\<rparr>"

text \<open>
  A file system with three configuration files: \<open>prod.yml\<close> inherits
  \<open>base.yml\<close>, and \<open>stage.yml\<close> inherits \<open>prod.yml\<close>. The decoder of the
  example fills \<^verbatim>\<open>DBType\<close> from the key \<open>db_type\<close>.
\<close>

definition example_files :: "string \<Rightarrow> string + (string \<rightharpoonup> string)" where
  "example_files file =
     (if file = ''config/prod.yml'' then Inr [''inherits'' \<mapsto> ''base.yml'', ''db_type'' \<mapsto> ''mysql'']
      else if file = ''config/base.yml'' then Inr [''db_type'' \<mapsto> ''postgres'', ''port'' \<mapsto> ''8080'']
      else if file = ''config/stage.yml'' then Inr [''inherits'' \<mapsto> ''prod.yml'']
      else Inl ''no such file'')"

definition sys0 :: "string sys" where
  "sys0 = \<lparr>filepath_Dir = (\<lambda>p. rev (tl (dropWhile (\<lambda>ch. ch \<noteq> CHR ''/'') (rev p)))),
            filepath_Base = (\<lambda>p. rev (takeWhile (\<lambda>ch. ch \<noteq> CHR ''/'') (rev p))),
            filepath_Ext = (\<lambda>p. if CHR ''.'' \<in> set p
                                 then CHR ''.'' # rev (takeWhile (\<lambda>ch. ch \<noteq> CHR ''.'') (rev p))
                                 else ''''),
            filepath_Join = (\<lambda>dir file. dir @ ''/'' @ file),
            findConfigFile = (\<lambda>name paths. Inl ''config file not found''),
            readConfigFile = example_files,
            Environ = [''HOME=/root''],
            SetKeyValue = (\<lambda>vi k v. vi),
            Unmarshal = (\<lambda>vi c. Inr (c\<lparr>DBType := GetString vi ''db_type''\<rparr>))\<rparr>"

definition vi_prod :: Viper where
  "vi_prod = \<lparr>configFile = ''config/prod.yml'', configName = '''', configPaths = [],
              config = [''inherits'' \<mapsto> ''base.yml'', ''db_type'' \<mapsto> ''mysql'']\<rparr>"

definition vi_base :: Viper where
  "vi_base = \<lparr>configFile = ''config/base.yml'', configName = '''', configPaths = [],
              config = [''db_type'' \<mapsto> ''postgres'', ''port'' \<mapsto> ''8080'']\<rparr>"

definition vi_stage :: Viper where
  "vi_stage = \<lparr>configFile = ''config/stage.yml'', configName = '''', configPaths = [],
              config = [''inherits'' \<mapsto> ''prod.yml'']\<rparr>"

section \<open>Properties\<close>

subsection \<open>The resolver registry\<close>

lemma SetResolver_fresh:
  "registry c name = None \<Longrightarrow>
     SetResolver c name fn = (c\<lparr>rtmap := Some ((registry c)(name \<mapsto> fn))\<rparr>, None)"
  by (cases "rtmap c") (simp_all add: SetResolver_def registry_def)

lemma SetResolver_present:
  "registry c name = Some g \<Longrightarrow> SetResolver c name fn = (c, Some (ResolverDefined name))"
  by (cases "rtmap c") (simp_all add: SetResolver_def registry_def)

text \<open>
  C7. \<^verbatim>\<open>SetResolver\<close> keeps the registry as a map from type name to constructor.
  Registering a name that is not yet present returns no error, and the registry
  afterwards is the old one with exactly the one mapping \<open>name \<mapsto> fn\<close> added
  (every other name resolves as before, no other field of the configuration
  changes). Registering a name that is already present returns the error
  "resolver defined" and leaves the whole configuration, hence the registry and
  the first registration, unchanged.
\<close>

theorem SetResolver_registry:
  "(registry c name = None \<longrightarrow>
      snd (SetResolver c name fn) = None \<and>
      registry (fst (SetResolver c name fn)) = (registry c)(name \<mapsto> fn) \<and>
      dom (registry (fst (SetResolver c name fn))) = insert name (dom (registry c)) \<and>
      (\<forall>n. n \<noteq> name \<longrightarrow> registry (fst (SetResolver c name fn)) n = registry c n) \<and>
      fst (SetResolver c name fn) = c\<lparr>rtmap := rtmap (fst (SetResolver c name fn))\<rparr>) \<and>
   (registry c name \<noteq> None \<longrightarrow>
      snd (SetResolver c name fn) = Some (ResolverDefined name) \<and>
      fst (SetResolver c name fn) = c \<and>
      registry (fst (SetResolver c name fn)) name = registry c name)"
proof (cases "registry c name")
  case None
  then show ?thesis
    by (simp add: SetResolver_fresh registry_def)
next
  case (Some g)
  then show ?thesis
    by (simp add: SetResolver_present)
qed

theorem SetResolver_registry_witness:
  "registry conf0 ''redis'' = None \<and>
   snd (SetResolver conf0 ''redis'' ''newRedis'') = None \<and>
   registry (fst (SetResolver conf0 ''redis'' ''newRedis'')) ''redis'' = Some ''newRedis'' \<and>
   registry (fst (SetResolver conf0 ''redis'' ''newRedis'')) ''remote_api'' = None \<and>
   snd (SetResolver (fst (SetResolver conf0 ''redis'' ''newRedis'')) ''redis'' ''other'')
     = Some (ResolverDefined ''redis'') \<and>
   fst (SetResolver (fst (SetResolver conf0 ''redis'' ''newRedis'')) ''redis'' ''other'')
     = fst (SetResolver conf0 ''redis'' ''newRedis'')"
proof -
  have fresh: "registry conf0 ''redis'' = None"
    by (simp add: registry_def conf0_def)
  note first = SetResolver_registry [of conf0 "''redis''" "''newRedis''"]
  have r1: "registry (fst (SetResolver conf0 ''redis'' ''newRedis''))
              = (registry conf0)(''redis'' \<mapsto> ''newRedis'')"
    using first fresh by blast
  have present: "registry (fst (SetResolver conf0 ''redis'' ''newRedis'')) ''redis'' \<noteq> None"
    by (simp add: r1)
  note second =
    SetResolver_registry [of "fst (SetResolver conf0 ''redis'' ''newRedis'')" "''redis''" "''other''"]
  show ?thesis
    using first fresh second present r1 by (simp add: registry_def conf0_def)
qed

subsection \<open>Start-up validation\<close>

text \<open>
  C3. For every service whose role list has no role named "anon" and whose
  \<^verbatim>\<open>Core.DefaultBlock\<close> is true, \<^verbatim>\<open>validateConf\<close> does not fail (it has no
  error result and always returns the service): it sets
  \<^verbatim>\<open>s.conf.AuthFailBlock\<close> to false, appends exactly one warning to the log,
  and changes nothing else; in particular \<^verbatim>\<open>Core.DefaultBlock\<close> itself keeps
  its value.
\<close>

theorem validateConf_no_anon:
  assumes "\<forall>r \<in> set (Roles (Core (conf s))). Role.Name r \<noteq> ''anon''"
    and "DefaultBlock (Core (conf s))"
  shows "validateConf s =
           s\<lparr>log := log s @ [Warn ''unauthenticated requests will be blocked. no role 'anon' defined''],
             conf := (conf s)\<lparr>AuthFailBlock := False\<rparr>\<rparr> \<and>
         \<not> AuthFailBlock (conf (validateConf s)) \<and>
         Core (conf (validateConf s)) = Core (conf s) \<and>
         log (validateConf s) =
           log s @ [Warn ''unauthenticated requests will be blocked. no role 'anon' defined'']"
  using assms by (simp add: validateConf_def anonFound_def)

theorem validateConf_no_anon_witness:
  "map Role.Name (Roles (Core (conf serv0))) = [''user''] \<and>
   DefaultBlock (Core (conf serv0)) \<and> AuthFailBlock (conf serv0) \<and>
   \<not> AuthFailBlock (conf (validateConf serv0)) \<and>
   DefaultBlock (Core (conf (validateConf serv0))) \<and>
   log (validateConf serv0) =
     [Warn ''unauthenticated requests will be blocked. no role 'anon' defined'']"
proof -
  have h1: "\<forall>r \<in> set (Roles (Core (conf serv0))). Role.Name r \<noteq> ''anon''"
    by (simp add: serv0_def sconf0_def conf0_def user_role_def)
  have h2: "DefaultBlock (Core (conf serv0))"
    by (simp add: serv0_def sconf0_def conf0_def)
  show ?thesis
    using validateConf_no_anon [OF h1 h2] h2
    by (simp add: serv0_def sconf0_def conf0_def user_role_def)
qed

subsection \<open>\<^verbatim>\<open>initConfig\<close>\<close>

lemma Core_set_hostPort: "Core (set_hostPort d c) = Core c"
  by (simp add: set_hostPort_def Let_def split: list.splits)

lemma auths_loop_Inr:
  "(\<exists>am'. auths_loop as am = Inr am') \<longleftrightarrow>
     distinct (map Auth.Name as) \<and> set (map Auth.Name as) \<inter> am = {}"
  by (induction as arbitrary: am) auto

lemma auths_loop_Inl: "auths_loop as am = Inl e \<Longrightarrow> \<exists>n. e = DuplicateAuth n"
  by (induction as arbitrary: am) (auto split: if_splits)

lemma auths_loop_empty:
  "distinct (map Auth.Name as) \<Longrightarrow> \<exists>am'. auths_loop as {} = Inr am'"
  using auths_loop_Inr [of as "{}"] by simp

lemma auths_loop_dup:
  assumes "\<not> distinct (map Auth.Name as)"
  shows "\<exists>n. auths_loop as {} = Inl (DuplicateAuth n)"
proof -
  have "\<not> (\<exists>am'. auths_loop as {} = Inr am')"
    using auths_loop_Inr [of as "{}"] assms by simp
  then obtain e where "auths_loop as {} = Inl e"
    by (cases "auths_loop as {}") auto
  then show ?thesis
    using auths_loop_Inl by blast
qed

lemma actions_loop_error:
  "actions_loop as am axm = Some e \<Longrightarrow> e \<noteq> AdminSecretKeyNotSet"
  by (induction as arbitrary: axm) (auto split: if_splits)

text \<open>
  C6, as stated, fails: the loop over \<^verbatim>\<open>c.Auths\<close> runs before the hot-deploy
  block, so a configuration with hot deployment, a non-empty key and two auths
  of the same name makes \<^verbatim>\<open>initConfig\<close> return the duplicate-auth error with
  \<^verbatim>\<open>s.asec\<close> still at its zero value: no digest is stored.
\<close>

theorem initConfig_hot_deploy_counterexample:
  "HotDeploy (conf serv_dup) \<and> AdminSecretKey (conf serv_dup) = ''secret'' \<and>
   snd (initConfig Digest ''0.0.0.0:8080'' serv_dup) = Some (DuplicateAuth ''jwt'') \<and>
   asec (fst (initConfig Digest ''0.0.0.0:8080'' serv_dup)) = Zero \<and>
   asec (fst (initConfig Digest ''0.0.0.0:8080'' serv_dup)) \<noteq> Digest (AdminSecretKey (conf serv_dup))"
  by (simp add: initConfig_def serv_dup_def serv0_def sconf0_def conf0_def jwt_auth_def)

text \<open>
  C6, amended. For every configuration with hot deployment enabled:
  when \<^verbatim>\<open>AdminSecretKey\<close> is empty, \<^verbatim>\<open>initConfig\<close> returns an error and
  \<^verbatim>\<open>s.asec\<close> is left as it was; when \<^verbatim>\<open>AdminSecretKey\<close> is non-empty and no
  two entries of \<^verbatim>\<open>Auths\<close> share a name, \<^verbatim>\<open>s.asec\<close> is set to the SHA-256
  digest of the key (the only value \<^verbatim>\<open>initConfig\<close> ever writes there) and the
  error, if any, is not the missing-key error; when two entries of \<^verbatim>\<open>Auths\<close>
  share a name, \<^verbatim>\<open>initConfig\<close> returns the duplicate-auth error and \<^verbatim>\<open>s.asec\<close>
  is left as it was.
\<close>

theorem initConfig_hot_deploy:
  assumes "HotDeploy (conf s)"
  shows "(AdminSecretKey (conf s) = '''' \<longrightarrow>
            snd (initConfig Sum256 defaultHP s) \<noteq> None \<and>
            asec (fst (initConfig Sum256 defaultHP s)) = asec s) \<and>
         (AdminSecretKey (conf s) \<noteq> '''' \<longrightarrow> distinct (map Auth.Name (Auths (conf s))) \<longrightarrow>
            asec (fst (initConfig Sum256 defaultHP s)) = Sum256 (AdminSecretKey (conf s)) \<and>
            snd (initConfig Sum256 defaultHP s) \<noteq> Some AdminSecretKeyNotSet) \<and>
         (\<not> distinct (map Auth.Name (Auths (conf s))) \<longrightarrow>
            (\<exists>n. snd (initConfig Sum256 defaultHP s) = Some (DuplicateAuth n)) \<and>
            asec (fst (initConfig Sum256 defaultHP s)) = asec s)"
proof (cases "distinct (map Auth.Name (Auths (conf s)))")
  case True
  then obtain am where am: "auths_loop (Auths (conf s)) {} = Inr am"
    using auths_loop_empty by blast
  show ?thesis
    using assms True am
    by (auto simp: initConfig_def Let_def split: option.splits dest: actions_loop_error)
next
  case False
  then obtain n where n: "auths_loop (Auths (conf s)) {} = Inl (DuplicateAuth n)"
    using auths_loop_dup by blast
  show ?thesis
    using assms False n
    by (auto simp: initConfig_def Let_def)
qed

theorem initConfig_hot_deploy_witness:
  "HotDeploy (conf serv_hot) \<and> AdminSecretKey (conf serv_hot) = ''secret'' \<and>
   distinct (map Auth.Name (Auths (conf serv_hot))) \<and>
   asec serv_hot = Zero \<and>
   asec (fst (initConfig Digest ''0.0.0.0:8080'' serv_hot)) = Digest ''secret''"
proof -
  have h: "HotDeploy (conf serv_hot)"
    by (simp add: serv_hot_def serv0_def sconf0_def)
  have k: "AdminSecretKey (conf serv_hot) = ''secret''"
    by (simp add: serv_hot_def serv0_def sconf0_def)
  have d: "distinct (map Auth.Name (Auths (conf serv_hot)))"
    by (simp add: serv_hot_def serv0_def sconf0_def)
  have z: "asec serv_hot = Zero"
    by (simp add: serv_hot_def serv0_def)
  show ?thesis
    using initConfig_hot_deploy [OF h, of Digest "''0.0.0.0:8080''"] h k d z by simp
qed

text \<open>
  C8, as stated, fails: the assignment \<^verbatim>\<open>c.Core.DefaultBlock = false\<close> comes
  after three checks that return early. With authentication type "none",
  \<^verbatim>\<open>default_block\<close> set, and two auths of the same name, \<^verbatim>\<open>initConfig\<close>
  returns the duplicate-auth error and \<^verbatim>\<open>Core.DefaultBlock\<close> is still true.
\<close>

theorem initConfig_DefaultBlock_counterexample:
  "Auth.Type (Auth (conf serv_dup)) = ''none'' \<and>
   DefaultBlock (Core (conf serv_dup)) \<and>
   snd (initConfig Digest ''0.0.0.0:8080'' serv_dup) = Some (DuplicateAuth ''jwt'') \<and>
   DefaultBlock (Core (conf (fst (initConfig Digest ''0.0.0.0:8080'' serv_dup))))"
  by (simp add: initConfig_def serv_dup_def serv0_def sconf0_def conf0_def jwt_auth_def)

text \<open>
  C8, amended. For every configuration whose \<^verbatim>\<open>Auth.Type\<close> is the empty string
  or "none" and on which \<^verbatim>\<open>initConfig\<close> returns no error, \<^verbatim>\<open>initConfig\<close>
  leaves \<^verbatim>\<open>Core.DefaultBlock\<close> false, whatever value it had before.
\<close>

theorem initConfig_DefaultBlock:
  assumes "Auth.Type (Auth (conf s)) = '''' \<or> Auth.Type (Auth (conf s)) = ''none''"
    and "snd (initConfig Sum256 defaultHP s) = None"
  shows "\<not> DefaultBlock (Core (conf (fst (initConfig Sum256 defaultHP s))))"
  using assms
  by (auto simp: initConfig_def Let_def Core_set_hostPort split: sum.splits option.splits if_splits)

theorem initConfig_DefaultBlock_witness:
  "Auth.Type (Auth (conf serv0)) = ''none'' \<and>
   DefaultBlock (Core (conf serv0)) \<and>
   snd (initConfig Digest ''0.0.0.0:8080'' serv0) = None \<and>
   \<not> DefaultBlock (Core (conf (fst (initConfig Digest ''0.0.0.0:8080'' serv0))))"
proof -
  have t: "Auth.Type (Auth (conf serv0)) = '''' \<or> Auth.Type (Auth (conf serv0)) = ''none''"
    by (simp add: serv0_def sconf0_def)
  have ok: "snd (initConfig Digest ''0.0.0.0:8080'' serv0) = None"
    by (simp add: initConfig_def serv0_def sconf0_def conf0_def set_hostPort_def SplitN2_def)
  show ?thesis
    using initConfig_DefaultBlock [OF t ok] ok
    by (simp add: serv0_def sconf0_def conf0_def)
qed

subsection \<open>Policies modelled from the spec\<close>

text \<open>
  C1. In locked mode (production, allow list not disabled), compiling a
  fingerprint that is absent from the Allow-List Store fails with
  \<open>AccessDeniedError\<close>, and the engine is left exactly as it was: its trace
  gains neither a compilation nor a SQL generation attempt, and the store gains
  no entry.
\<close>

theorem compile_query_locked:
  assumes "Production c" and "\<not> DisableAllowList c" and "store st fp = None"
  shows "compile_query c qcompile sqlgen st fp = (Inl AccessDeniedError, st) \<and>
         trace (snd (compile_query c qcompile sqlgen st fp)) = trace st \<and>
         store (snd (compile_query c qcompile sqlgen st fp)) = store st"
  using assms by (simp add: compile_query_def locked_def)

theorem compile_query_locked_witness:
  "Production conf_prod \<and> \<not> DisableAllowList conf_prod \<and>
   store engine0 ''query getSecrets'' = None \<and>
   compile_query conf_prod (\<lambda>q. Inr q) (\<lambda>sel. Inr (''SELECT '' @ sel)) engine0 ''query getSecrets''
     = (Inl AccessDeniedError, engine0)"
proof -
  have p: "Production conf_prod" by (simp add: conf_prod_def conf0_def)
  have d: "\<not> DisableAllowList conf_prod" by (simp add: conf_prod_def conf0_def)
  have a: "store engine0 ''query getSecrets'' = None" by (simp add: engine0_def)
  show ?thesis
    using compile_query_locked [OF p d a, of "\<lambda>q. Inr q" "\<lambda>sel. Inr (''SELECT '' @ sel)"] p d a
    by simp
qed

text \<open>
  C2. For every mutation kind (insert, update, upsert) and every role table
  whose policy for that kind defines a preset for a column, the value of that
  column in the final write payload is the preset value, for every client
  input, also one that supplies another value for the same column.
\<close>

theorem presets_override:
  assumes "presets_of t m col = Some v"
  shows "write_payload t m input col = Some v"
  using assms by (simp add: write_payload_def map_add_Some_iff)

theorem presets_override_witness:
  "presets_of posts_table InsertOp ''user_id'' = Some ''$user_id'' \<and>
   write_payload posts_table InsertOp [''title'' \<mapsto> ''hi'', ''user_id'' \<mapsto> ''999''] ''user_id''
     = Some ''$user_id''"
proof -
  have p: "presets_of posts_table InsertOp ''user_id'' = Some ''$user_id''"
    by (simp add: posts_table_def new_table_def)
  show ?thesis
    using presets_override [OF p, of "[''title'' \<mapsto> ''hi'', ''user_id'' \<mapsto> ''999'']"] p by simp
qed

text \<open>
  C4. The effective row limit is the minimum of the client-requested limit,
  the limit of the role table's query policy and the global default limit; it
  exceeds none of the three, and it is a number, never unbounded.
\<close>

theorem effective_limit_min:
  "effective_limit c q requested = Min {requested, Limit q, DefaultLimit c} \<and>
   effective_limit c q requested \<le> requested \<and>
   effective_limit c q requested \<le> Limit q \<and>
   effective_limit c q requested \<le> DefaultLimit c"
  by (simp add: effective_limit_def min_def)

subsection \<open>Role tables\<close>

lemma role_index_None_iff:
  "role_index EqualFold rs role = None \<longleftrightarrow> (\<forall>r \<in> set rs. \<not> EqualFold (Role.Name r) role)"
  by (induction rs) auto

lemma role_index_Some_iff: "role_index EqualFold rs role = Some i \<longleftrightarrow> role_at EqualFold rs role i"
proof (induction rs arbitrary: i)
  case Nil
  then show ?case by (simp add: role_at_def)
next
  case (Cons r rs)
  show ?case
  proof (cases "EqualFold (Role.Name r) role")
    case True
    then show ?thesis
      by (cases i) (auto simp: role_at_def)
  next
    case False
    show ?thesis
    proof (cases i)
      case 0
      with False show ?thesis by (simp add: role_at_def)
    next
      case (Suc k)
      have "role_at EqualFold (r # rs) role (Suc k) \<longleftrightarrow> role_at EqualFold rs role k"
        using False by (auto simp: role_at_def less_Suc_eq_0_disj)
      with Suc False Cons.IH [of k] show ?thesis by auto
    qed
  qed
qed

lemma table_index_None_iff:
  "table_index EqualFold ts table schema = None \<longleftrightarrow> (\<forall>t \<in> set ts. \<not> table_matches EqualFold t table schema)"
  by (induction ts) (auto simp: table_matches_def)

lemma table_index_Some_iff: "table_index EqualFold ts table schema = Some k \<longleftrightarrow> table_at EqualFold ts table schema k"
proof (induction ts arbitrary: k)
  case Nil
  then show ?case by (simp add: table_at_def)
next
  case (Cons t ts)
  show ?case
  proof (cases "table_matches EqualFold t table schema")
    case True
    then show ?thesis
      by (cases k) (auto simp: table_at_def table_matches_def)
  next
    case False
    show ?thesis
    proof (cases k)
      case 0
      with False show ?thesis by (auto simp: table_at_def table_matches_def)
    next
      case (Suc n)
      have "table_at EqualFold (t # ts) table schema (Suc n) \<longleftrightarrow> table_at EqualFold ts table schema n"
        using False by (auto simp: table_at_def less_Suc_eq_0_disj)
      with Suc False Cons.IH [of n] show ?thesis by (auto simp: table_matches_def)
    qed
  qed
qed

lemma length_remove_at: "i < length xs \<Longrightarrow> length (remove_at i xs) = length xs - 1"
  by (simp add: remove_at_def)

lemma nth_remove_at:
  "i < length xs \<Longrightarrow> j < length xs - 1 \<Longrightarrow>
     remove_at i xs ! j = (if j < i then xs ! j else xs ! Suc j)"
  by (auto simp: remove_at_def nth_append min_def)

lemma remove_at_update: "i < length xs \<Longrightarrow> remove_at i (xs[i := y]) = remove_at i xs"
  by (simp add: remove_at_def)

text \<open>
  C10. For every function \<open>EqualFold\<close>, so for \<^verbatim>\<open>strings.EqualFold\<close>:
  \<^verbatim>\<open>RemoveRoleTable\<close> returns the error "role not found" and the
  configuration unchanged when no role matches the name under case folding, and
  the error "table not found" and the configuration unchanged when the first
  matching role has no table matching the (schema, table) pair. Otherwise it
  returns no error and removes exactly the first matching entry \<open>ti\<close> from that
  role's tables (\<open>remove_at ti\<close>: the entries before and after it stay, in
  order); when that entry was the role's only table, the role itself is removed
  from the role list. No other field of the configuration changes.
\<close>

theorem RemoveRoleTable_spec:
  "((\<forall>r \<in> set (Roles c). \<not> EqualFold (Role.Name r) role) \<longrightarrow>
      RemoveRoleTable EqualFold c role table = (c, Some (RoleNotFound role))) \<and>
   (\<forall>ri. role_at EqualFold (Roles c) role ri \<longrightarrow>
      ((\<forall>t \<in> set (Tables (Roles c ! ri)).
           \<not> table_matches EqualFold t (snd (schema_table table)) (fst (schema_table table))) \<longrightarrow>
         RemoveRoleTable EqualFold c role table = (c, Some (TableNotFound (snd (schema_table table))))) \<and>
      (\<forall>ti. table_at EqualFold (Tables (Roles c ! ri)) (snd (schema_table table)) (fst (schema_table table)) ti \<longrightarrow>
         RemoveRoleTable EqualFold c role table =
           (c\<lparr>Roles :=
                 (if length (Tables (Roles c ! ri)) = 1 then remove_at ri (Roles c)
                  else (Roles c)[ri := (Roles c ! ri)\<lparr>Tables := remove_at ti (Tables (Roles c ! ri))\<rparr>])\<rparr>,
            None)))"
proof (intro conjI allI impI)
  assume "\<forall>r \<in> set (Roles c). \<not> EqualFold (Role.Name r) role"
  then have "role_index EqualFold (Roles c) role = None"
    by (simp add: role_index_None_iff)
  then show "RemoveRoleTable EqualFold c role table = (c, Some (RoleNotFound role))"
    by (simp add: RemoveRoleTable_def)
next
  fix ri
  assume r: "role_at EqualFold (Roles c) role ri"
    and t: "\<forall>t \<in> set (Tables (Roles c ! ri)).
              \<not> table_matches EqualFold t (snd (schema_table table)) (fst (schema_table table))"
  from r have ri: "role_index EqualFold (Roles c) role = Some ri"
    by (simp add: role_index_Some_iff)
  from t have "table_index EqualFold (Tables (Roles c ! ri)) (snd (schema_table table)) (fst (schema_table table)) = None"
    by (simp add: table_index_None_iff)
  with ri show "RemoveRoleTable EqualFold c role table = (c, Some (TableNotFound (snd (schema_table table))))"
    by (simp add: RemoveRoleTable_def Let_def split_beta)
next
  fix ri ti
  assume r: "role_at EqualFold (Roles c) role ri"
    and t: "table_at EqualFold (Tables (Roles c ! ri)) (snd (schema_table table)) (fst (schema_table table)) ti"
  from r have ri: "role_index EqualFold (Roles c) role = Some ri" and lr: "ri < length (Roles c)"
    by (simp_all add: role_index_Some_iff role_at_def)
  from t have ti: "table_index EqualFold (Tables (Roles c ! ri)) (snd (schema_table table)) (fst (schema_table table)) = Some ti"
    and lt: "ti < length (Tables (Roles c ! ri))"
    by (simp_all add: table_index_Some_iff table_at_def)
  have len: "length (remove_at ti (Tables (Roles c ! ri))) = 0 \<longleftrightarrow> length (Tables (Roles c ! ri)) = 1"
    using lt by (auto simp: length_remove_at)
  show "RemoveRoleTable EqualFold c role table =
           (c\<lparr>Roles :=
                 (if length (Tables (Roles c ! ri)) = 1 then remove_at ri (Roles c)
                  else (Roles c)[ri := (Roles c ! ri)\<lparr>Tables := remove_at ti (Tables (Roles c ! ri))\<rparr>])\<rparr>,
            None)"
    using ri ti lr len
    by (simp add: RemoveRoleTable_def Let_def split_beta remove_at_update del: length_0_conv)
qed


theorem RemoveRoleTable_spec_witness:
  "role_at EqualFold_ascii (Roles conf_roles) ''Admin'' (Suc 0) \<and>
   table_at EqualFold_ascii (Tables (Roles conf_roles ! Suc 0)) ''AUDIT'' '''' 0 \<and>
   length (Tables (Roles conf_roles ! Suc 0)) = Suc 0 \<and>
   RemoveRoleTable EqualFold_ascii conf_roles ''Admin'' ''AUDIT'' =
     (conf_roles\<lparr>Roles := [\<lparr>Role.Name = ''user'', Match = '''', Tables = [users_table, posts_table]\<rparr>]\<rparr>,
      None) \<and>
   role_at EqualFold_ascii (Roles conf_roles) ''User'' 0 \<and>
   table_at EqualFold_ascii (Tables (Roles conf_roles ! 0)) ''posts'' '''' (Suc 0) \<and>
   RemoveRoleTable EqualFold_ascii conf_roles ''User'' ''posts'' =
     (conf_roles\<lparr>Roles := [\<lparr>Role.Name = ''user'', Match = '''', Tables = [users_table]\<rparr>,
                          \<lparr>Role.Name = ''admin'', Match = '''', Tables = [audit_table]\<rparr>]\<rparr>,
      None) \<and>
   RemoveRoleTable EqualFold_ascii conf_roles ''User'' ''public.posts'' = (conf_roles, Some (TableNotFound ''posts'')) \<and>
   RemoveRoleTable EqualFold_ascii conf_roles ''guest'' ''posts'' = (conf_roles, Some (RoleNotFound ''guest''))"
proof -
  have st: "schema_table ''AUDIT'' = ('''', ''AUDIT'')" "schema_table ''posts'' = ('''', ''posts'')"
    "schema_table ''public.posts'' = (''public'', ''posts'')"
    by (simp_all add: schema_table_def SplitN2_def)
  have tabs: "Tables (Roles conf_roles ! Suc 0) = [audit_table]"
    "Tables (Roles conf_roles ! 0) = [users_table, posts_table]"
    "Roles conf_roles ! Suc 0 = \<lparr>Role.Name = ''admin'', Match = '''', Tables = [audit_table]\<rparr>"
    "Roles conf_roles ! 0 = \<lparr>Role.Name = ''user'', Match = '''', Tables = [users_table, posts_table]\<rparr>"
    by (simp_all add: conf_roles_def)
  have r1: "role_at EqualFold_ascii (Roles conf_roles) ''Admin'' (Suc 0)"
    by (simp add: role_at_def conf_roles_def ascii_fold_eq_def)
  have t1: "table_at EqualFold_ascii (Tables (Roles conf_roles ! Suc 0)) ''AUDIT'' '''' 0"
    by (simp add: tabs table_at_def table_matches_def audit_table_def new_table_def ascii_fold_eq_def)
  have r0: "role_at EqualFold_ascii (Roles conf_roles) ''User'' 0"
    by (simp add: role_at_def conf_roles_def ascii_fold_eq_def)
  have t0: "table_at EqualFold_ascii (Tables (Roles conf_roles ! 0)) ''posts'' '''' (Suc 0)"
    by (simp add: tabs table_at_def table_matches_def users_table_def posts_table_def
        new_table_def ascii_fold_eq_def)
  have n0: "\<forall>t \<in> set (Tables (Roles conf_roles ! 0)). \<not> table_matches EqualFold_ascii t ''posts'' ''public''"
    by (simp add: tabs table_matches_def users_table_def posts_table_def new_table_def ascii_fold_eq_def)
  have ng: "\<forall>r \<in> set (Roles conf_roles). \<not> EqualFold_ascii (Role.Name r) ''guest''"
    by (simp add: conf_roles_def ascii_fold_eq_def)
  have a: "RemoveRoleTable EqualFold_ascii conf_roles ''Admin'' ''AUDIT'' =
     (conf_roles\<lparr>Roles := [\<lparr>Role.Name = ''user'', Match = '''', Tables = [users_table, posts_table]\<rparr>]\<rparr>,
      None)"
    using RemoveRoleTable_spec [where EqualFold = EqualFold_ascii and c = conf_roles and role = "''Admin''" and table = "''AUDIT''"] r1 t1
    by (simp add: st tabs remove_at_def conf_roles_def)
  have b: "RemoveRoleTable EqualFold_ascii conf_roles ''User'' ''posts'' =
     (conf_roles\<lparr>Roles := [\<lparr>Role.Name = ''user'', Match = '''', Tables = [users_table]\<rparr>,
                          \<lparr>Role.Name = ''admin'', Match = '''', Tables = [audit_table]\<rparr>]\<rparr>,
      None)"
    using RemoveRoleTable_spec [where EqualFold = EqualFold_ascii and c = conf_roles and role = "''User''" and table = "''posts''"] r0 t0
    by (simp add: st tabs remove_at_def conf_roles_def)
  have c: "RemoveRoleTable EqualFold_ascii conf_roles ''User'' ''public.posts'' = (conf_roles, Some (TableNotFound ''posts''))"
    using RemoveRoleTable_spec [where EqualFold = EqualFold_ascii and c = conf_roles and role = "''User''" and table = "''public.posts''"] r0 n0
    by (simp add: st)
  have d: "RemoveRoleTable EqualFold_ascii conf_roles ''guest'' ''posts'' = (conf_roles, Some (RoleNotFound ''guest''))"
    using RemoveRoleTable_spec [where EqualFold = EqualFold_ascii and c = conf_roles and role = "''guest''" and table = "''posts''"] ng
    by simp
  show ?thesis
    using r1 t1 r0 t0 a b c d by (simp add: tabs)
qed


lemma set_conf_Name [simp]: "RoleTable.Name (fst (set_conf cf t)) = RoleTable.Name t"
  by (cases cf) simp_all

lemma set_conf_Schema [simp]: "RoleTable.Schema (fst (set_conf cf t)) = RoleTable.Schema t"
  by (cases cf) simp_all

lemma roles_unique_snoc:
  assumes sym: "\<forall>s t. EqualFold s t = EqualFold t s"
    and uniq: "roles_unique EqualFold rs"
    and fresh: "\<forall>r \<in> set rs. \<not> EqualFold (Role.Name r) (Role.Name x)"
  shows "roles_unique EqualFold (rs @ [x])"
  unfolding roles_unique_def
proof (intro allI impI)
  fix i j
  assume i: "i < length (rs @ [x])" and j: "j < length (rs @ [x])" and ne: "i \<noteq> j"
  consider "i < length rs" "j < length rs" | "i < length rs" "j = length rs"
    | "i = length rs" "j < length rs"
    using i j ne by (cases "i < length rs"; cases "j < length rs") auto
  then show "\<not> EqualFold (Role.Name ((rs @ [x]) ! i)) (Role.Name ((rs @ [x]) ! j))"
  proof cases
    case 1
    with uniq ne show ?thesis by (simp add: roles_unique_def nth_append)
  next
    case 2
    with fresh show ?thesis by (simp add: nth_append)
  next
    case 3
    with fresh show ?thesis by (simp add: nth_append sym [rule_format, of "Role.Name x"])
  qed
qed

lemma roles_unique_update:
  assumes "roles_unique EqualFold rs" and "Role.Name y = Role.Name (rs ! i)"
  shows "roles_unique EqualFold (rs[i := y])"
proof -
  have "Role.Name (rs[i := y] ! j) = Role.Name (rs ! j)" if "j < length rs" for j
    using that assms(2) by (cases "j = i") simp_all
  with assms(1) show ?thesis by (simp add: roles_unique_def)
qed

lemma tables_unique_snoc:
  assumes sym: "\<forall>s t. EqualFold s t = EqualFold t s"
    and uniq: "tables_unique EqualFold ts"
    and fresh: "\<forall>t \<in> set ts. \<not> table_matches EqualFold t (RoleTable.Name x) (RoleTable.Schema x)"
  shows "tables_unique EqualFold (ts @ [x])"
  unfolding tables_unique_def
proof (intro allI impI)
  fix i j
  assume i: "i < length (ts @ [x])" and j: "j < length (ts @ [x])" and ne: "i \<noteq> j"
  consider "i < length ts" "j < length ts" | "i < length ts" "j = length ts"
    | "i = length ts" "j < length ts"
    using i j ne by (cases "i < length ts"; cases "j < length ts") auto
  then show "\<not> (EqualFold (RoleTable.Name ((ts @ [x]) ! i)) (RoleTable.Name ((ts @ [x]) ! j)) \<and>
                EqualFold (RoleTable.Schema ((ts @ [x]) ! i)) (RoleTable.Schema ((ts @ [x]) ! j)))"
  proof cases
    case 1
    with uniq ne show ?thesis by (simp add: tables_unique_def nth_append)
  next
    case 2
    with fresh show ?thesis by (simp add: nth_append table_matches_def)
  next
    case 3
    with fresh show ?thesis
      by (simp add: nth_append table_matches_def sym [rule_format, of "RoleTable.Name x"]
          sym [rule_format, of "RoleTable.Schema x"])
  qed
qed

lemma tables_unique_update:
  assumes "tables_unique EqualFold ts" and "RoleTable.Name y = RoleTable.Name (ts ! k)"
    and "RoleTable.Schema y = RoleTable.Schema (ts ! k)"
  shows "tables_unique EqualFold (ts[k := y])"
proof -
  have "RoleTable.Name (ts[k := y] ! j) = RoleTable.Name (ts ! j) \<and>
        RoleTable.Schema (ts[k := y] ! j) = RoleTable.Schema (ts ! j)" if "j < length ts" for j
    using that assms(2,3) by (cases "j = k") simp_all
  with assms(1) show ?thesis by (simp add: tables_unique_def)
qed

lemma tables_unique_Nil: "tables_unique EqualFold []"
  by (simp add: tables_unique_def)

lemma tables_unique_single: "tables_unique EqualFold [t]"
  by (simp add: tables_unique_def)

lemma config_inv_update:
  assumes "config_inv EqualFold c" and "i < length (Roles c)"
    and "Role.Name y = Role.Name (Roles c ! i)" and "tables_unique EqualFold (Tables y)"
  shows "config_inv EqualFold (c\<lparr>Roles := (Roles c)[i := y]\<rparr>)"
proof -
  have "roles_unique EqualFold ((Roles c)[i := y])"
    using assms by (simp add: config_inv_def roles_unique_update)
  moreover have "\<forall>r \<in> set ((Roles c)[i := y]). tables_unique EqualFold (Tables r)"
  proof
    fix r assume "r \<in> set ((Roles c)[i := y])"
    then have "r = y \<or> r \<in> set (Roles c)"
      using set_update_subset_insert [of "Roles c" i y] by auto
    with assms show "tables_unique EqualFold (Tables r)" by (auto simp: config_inv_def)
  qed
  ultimately show ?thesis by (simp add: config_inv_def)
qed

lemma config_inv_snoc:
  assumes sym: "\<forall>s t. EqualFold s t = EqualFold t s"
    and inv: "config_inv EqualFold c"
    and fresh: "\<forall>r \<in> set (Roles c). \<not> EqualFold (Role.Name r) (Role.Name y)"
    and tabs: "tables_unique EqualFold (Tables y)"
  shows "config_inv EqualFold (c\<lparr>Roles := Roles c @ [y]\<rparr>)"
proof -
  have "roles_unique EqualFold (Roles c @ [y])"
    using sym inv fresh by (intro roles_unique_snoc) (simp_all add: config_inv_def)
  with inv tabs show ?thesis by (auto simp: config_inv_def)
qed

lemma AddRoleTable_new_role:
  assumes "role_index EqualFold (Roles c) role = None"
  shows "AddRoleTable EqualFold c role table cf =
           (c\<lparr>Roles := Roles c @
                 [(new_role role)\<lparr>Tables :=
                    [fst (set_conf cf (new_table (snd (schema_table table)) (fst (schema_table table))))]\<rparr>]\<rparr>,
            snd (set_conf cf (new_table (snd (schema_table table)) (fst (schema_table table)))))"
  using assms by (simp add: AddRoleTable_def Let_def split_beta new_role_def)

lemma AddRoleTable_new_table:
  assumes "role_index EqualFold (Roles c) role = Some i"
    and "table_index EqualFold (Tables (Roles c ! i)) (snd (schema_table table)) (fst (schema_table table)) = None"
  shows "AddRoleTable EqualFold c role table cf =
           (c\<lparr>Roles := (Roles c)[i := (Roles c ! i)\<lparr>Tables := Tables (Roles c ! i) @
                 [fst (set_conf cf (new_table (snd (schema_table table)) (fst (schema_table table))))]\<rparr>]\<rparr>,
            snd (set_conf cf (new_table (snd (schema_table table)) (fst (schema_table table)))))"
  using assms by (simp add: AddRoleTable_def Let_def split_beta)

lemma AddRoleTable_in_place:
  assumes "role_index EqualFold (Roles c) role = Some i"
    and "table_index EqualFold (Tables (Roles c ! i)) (snd (schema_table table)) (fst (schema_table table)) = Some k"
  shows "AddRoleTable EqualFold c role table cf =
           (c\<lparr>Roles := (Roles c)[i := (Roles c ! i)\<lparr>Tables :=
                 (Tables (Roles c ! i))[k := fst (set_conf cf (Tables (Roles c ! i) ! k))]\<rparr>]\<rparr>,
            snd (set_conf cf (Tables (Roles c ! i) ! k)))"
  using assms by (simp add: AddRoleTable_def Let_def split_beta)


lemma set_conf_stored:
  "fst (set_conf cf t) =
     (case cf of
        ConfQuery v \<Rightarrow> t\<lparr>Query := Some v\<rparr>
      | ConfInsert v \<Rightarrow> t\<lparr>Insert := Some v\<rparr>
      | ConfUpdate v \<Rightarrow> t\<lparr>Update := Some v\<rparr>
      | ConfUpsert v \<Rightarrow> t\<lparr>Upsert := Some v\<rparr>
      | ConfDelete v \<Rightarrow> t\<lparr>Delete := Some v\<rparr>
      | ConfOther \<Rightarrow> t)"
  by (cases cf) simp_all

lemma set_conf_error:
  "snd (set_conf cf t) = (case cf of ConfOther \<Rightarrow> Some UnsupportedObjectType | _ \<Rightarrow> None)"
  by (cases cf) simp_all

lemma AddRoleTable_error:
  "snd (AddRoleTable EqualFold c role table cf) =
     (case cf of ConfOther \<Rightarrow> Some UnsupportedObjectType | _ \<Rightarrow> None)"
  by (simp add: AddRoleTable_def Let_def split_beta set_conf_error)

lemma schema_table_plain: "CHR ''.'' \<notin> set table \<Longrightarrow> schema_table table = ('''', table)"
  by (simp add: schema_table_def SplitN2_def)

lemma schema_table_dot:
  "CHR ''.'' \<notin> set s \<Longrightarrow> schema_table (s @ CHR ''.'' # t) = (s, t)"
proof -
  assume nodot: "CHR ''.'' \<notin> set s"
  then have "takeWhile (\<lambda>ch. ch \<noteq> CHR ''.'') (s @ CHR ''.'' # t) = s"
    by (induction s) auto
  moreover from nodot have "dropWhile (\<lambda>ch. ch \<noteq> CHR ''.'') (s @ CHR ''.'' # t) = CHR ''.'' # t"
    by (induction s) auto
  ultimately show ?thesis
    by (simp add: schema_table_def SplitN2_def)
qed

lemma AddRoleTable_inv:
  assumes sym: "\<forall>s t. EqualFold s t = EqualFold t s"
    and inv: "config_inv EqualFold c"
  shows "config_inv EqualFold (fst (AddRoleTable EqualFold c role table cf))"
proof -
  let ?tn = "snd (schema_table table)" and ?sch = "fst (schema_table table)"
  show ?thesis
  proof (cases "role_index EqualFold (Roles c) role")
    case None
    then have nomatch: "\<forall>r \<in> set (Roles c). \<not> EqualFold (Role.Name r) role"
      by (simp add: role_index_None_iff)
    show ?thesis
      using config_inv_snoc [OF sym inv, of
          "(new_role role)\<lparr>Tables := [fst (set_conf cf (new_table ?tn ?sch))]\<rparr>"] nomatch
      by (simp add: AddRoleTable_new_role [OF None] new_role_def tables_unique_single)
  next
    case (Some i)
    then have i: "i < length (Roles c)"
      by (simp add: role_index_Some_iff role_at_def)
    then have tu: "tables_unique EqualFold (Tables (Roles c ! i))"
      using inv by (simp add: config_inv_def)
    show ?thesis
    proof (cases "table_index EqualFold (Tables (Roles c ! i)) ?tn ?sch")
      case None
      then have "\<forall>t \<in> set (Tables (Roles c ! i)). \<not> table_matches EqualFold t ?tn ?sch"
        by (simp add: table_index_None_iff)
      then have "tables_unique EqualFold
                   (Tables (Roles c ! i) @ [fst (set_conf cf (new_table ?tn ?sch))])"
        using sym tu by (intro tables_unique_snoc) (simp_all add: new_table_def)
      then show ?thesis
        using config_inv_update [OF inv i, of
            "(Roles c ! i)\<lparr>Tables := Tables (Roles c ! i) @ [fst (set_conf cf (new_table ?tn ?sch))]\<rparr>"]
        by (simp add: AddRoleTable_new_table [OF Some None])
    next
      case found: (Some k)
      have "tables_unique EqualFold
              ((Tables (Roles c ! i))[k := fst (set_conf cf (Tables (Roles c ! i) ! k))])"
        using tu by (intro tables_unique_update) simp_all
      then show ?thesis
        using config_inv_update [OF inv i, of
            "(Roles c ! i)\<lparr>Tables :=
               (Tables (Roles c ! i))[k := fst (set_conf cf (Tables (Roles c ! i) ! k))]\<rparr>"]
        by (simp add: AddRoleTable_in_place [OF Some found])
    qed
  qed
qed

text \<open>
  C5. Let \<open>EqualFold\<close> be symmetric, as \<^verbatim>\<open>strings.EqualFold\<close> is. For every
  configuration in which role names are unique under case folding and
  (schema, table) pairs are unique under case folding within each role, the
  configuration after \<^verbatim>\<open>AddRoleTable\<close> satisfies the same invariant, for every
  role name, table name and \<^verbatim>\<open>conf\<close> argument. The table name is split at its
  first dot into schema and name (no dot: empty schema). When no role matches,
  exactly one role \<^verbatim>\<open>Role{Name: role}\<close> is appended, holding exactly one table;
  when a role matches and none of its tables does, exactly one table is
  appended to that role; when both match, the matching table is updated in
  place. The table written is the found one, or the new
  \<^verbatim>\<open>RoleTable{Name: table, Schema: schema}\<close>, with the policy field of the
  \<^verbatim>\<open>conf\<close> kind set to the given policy: \<open>Query\<close> for a \<^verbatim>\<open>Query\<close>, \<open>Insert\<close>
  for an \<^verbatim>\<open>Insert\<close>, \<open>Update\<close>, \<open>Upsert\<close> and \<open>Delete\<close> likewise, and no field
  for any other value, for which alone the error "unsupported object type" is
  returned. Nothing else in the configuration changes.
\<close>

theorem AddRoleTable_invariant:
  assumes "\<forall>s t. EqualFold s t = EqualFold t s"
    and "config_inv EqualFold c"
  shows
    "let c' = fst (AddRoleTable EqualFold c role table cf);
         schema = fst (schema_table table);
         name = snd (schema_table table);
         new = \<lparr>RoleTable.Name = name, Schema = schema, ReadOnly = False,
                Query = None, Insert = None, Update = None, Upsert = None, Delete = None\<rparr>;
         stored = (\<lambda>t :: RoleTable. case cf of
                      ConfQuery v \<Rightarrow> t\<lparr>Query := Some v\<rparr>
                    | ConfInsert v \<Rightarrow> t\<lparr>Insert := Some v\<rparr>
                    | ConfUpdate v \<Rightarrow> t\<lparr>Update := Some v\<rparr>
                    | ConfUpsert v \<Rightarrow> t\<lparr>Upsert := Some v\<rparr>
                    | ConfDelete v \<Rightarrow> t\<lparr>Delete := Some v\<rparr>
                    | ConfOther \<Rightarrow> t)
     in config_inv EqualFold c' \<and>
        snd (AddRoleTable EqualFold c role table cf) =
          (case cf of ConfOther \<Rightarrow> Some UnsupportedObjectType | _ \<Rightarrow> None) \<and>
        (CHR ''.'' \<notin> set table \<longrightarrow> schema = '''' \<and> name = table) \<and>
        (\<forall>s t. table = s @ CHR ''.'' # t \<and> CHR ''.'' \<notin> set s \<longrightarrow> schema = s \<and> name = t) \<and>
        ((\<forall>r \<in> set (Roles c). \<not> EqualFold (Role.Name r) role) \<longrightarrow>
           c' = c\<lparr>Roles := Roles c @ [\<lparr>Role.Name = role, Match = '''', Tables = [stored new]\<rparr>]\<rparr>) \<and>
        (\<forall>i. role_at EqualFold (Roles c) role i \<longrightarrow>
           ((\<forall>t \<in> set (Tables (Roles c ! i)). \<not> table_matches EqualFold t name schema) \<longrightarrow>
              c' = c\<lparr>Roles := (Roles c)[i := (Roles c ! i)\<lparr>Tables :=
                     Tables (Roles c ! i) @ [stored new]\<rparr>]\<rparr>) \<and>
           (\<forall>k. table_at EqualFold (Tables (Roles c ! i)) name schema k \<longrightarrow>
              c' = c\<lparr>Roles := (Roles c)[i := (Roles c ! i)\<lparr>Tables :=
                     (Tables (Roles c ! i))[k := stored (Tables (Roles c ! i) ! k)]\<rparr>]\<rparr>))"
proof -
  define schema where "schema = fst (schema_table table)"
  define name where "name = snd (schema_table table)"
  define new where "new = \<lparr>RoleTable.Name = name, Schema = schema, ReadOnly = False,
                Query = None, Insert = None, Update = None, Upsert = None, Delete = None\<rparr>"
  define stored where "stored = (\<lambda>t :: RoleTable. case cf of
                      ConfQuery v \<Rightarrow> t\<lparr>Query := Some v\<rparr>
                    | ConfInsert v \<Rightarrow> t\<lparr>Insert := Some v\<rparr>
                    | ConfUpdate v \<Rightarrow> t\<lparr>Update := Some v\<rparr>
                    | ConfUpsert v \<Rightarrow> t\<lparr>Upsert := Some v\<rparr>
                    | ConfDelete v \<Rightarrow> t\<lparr>Delete := Some v\<rparr>
                    | ConfOther \<Rightarrow> t)"
  have new: "new = new_table (snd (schema_table table)) (fst (schema_table table))"
    by (simp add: new_def new_table_def name_def schema_def)
  have stored: "fst (set_conf cf t) = stored t" for t
    by (simp add: stored_def set_conf_stored)
  have 1: "config_inv EqualFold (fst (AddRoleTable EqualFold c role table cf))"
    using assms by (rule AddRoleTable_inv)
  have 2: "snd (AddRoleTable EqualFold c role table cf) =
          (case cf of ConfOther \<Rightarrow> Some UnsupportedObjectType | _ \<Rightarrow> None)"
    by (rule AddRoleTable_error)
  have 3: "CHR ''.'' \<notin> set table \<longrightarrow> schema = '''' \<and> name = table"
    by (simp add: schema_def name_def schema_table_plain)
  have 4: "\<forall>s t. table = s @ CHR ''.'' # t \<and> CHR ''.'' \<notin> set s \<longrightarrow> schema = s \<and> name = t"
    by (auto simp: schema_def name_def schema_table_dot)
  have 5: "(\<forall>r \<in> set (Roles c). \<not> EqualFold (Role.Name r) role) \<longrightarrow>
      fst (AddRoleTable EqualFold c role table cf) =
        c\<lparr>Roles := Roles c @ [\<lparr>Role.Name = role, Match = '''', Tables = [stored new]\<rparr>]\<rparr>"
    by (simp add: AddRoleTable_new_role role_index_None_iff [symmetric] new_role_def stored new)
  have 6: "\<forall>i. role_at EqualFold (Roles c) role i \<longrightarrow>
      ((\<forall>t \<in> set (Tables (Roles c ! i)). \<not> table_matches EqualFold t name schema) \<longrightarrow>
         fst (AddRoleTable EqualFold c role table cf) =
           c\<lparr>Roles := (Roles c)[i := (Roles c ! i)\<lparr>Tables :=
                 Tables (Roles c ! i) @ [stored new]\<rparr>]\<rparr>) \<and>
      (\<forall>k. table_at EqualFold (Tables (Roles c ! i)) name schema k \<longrightarrow>
         fst (AddRoleTable EqualFold c role table cf) =
           c\<lparr>Roles := (Roles c)[i := (Roles c ! i)\<lparr>Tables :=
                 (Tables (Roles c ! i))[k := stored (Tables (Roles c ! i) ! k)]\<rparr>]\<rparr>)"
    by (simp add: AddRoleTable_new_table AddRoleTable_in_place role_index_Some_iff [symmetric]
        table_index_None_iff [symmetric] table_index_Some_iff [symmetric] stored new
        name_def schema_def)
  from 1 2 3 4 5 6 show ?thesis
    unfolding Let_def stored_def new_def name_def schema_def by blast
qed

lemma ascii_fold_eq_sym: "ascii_fold_eq a b = ascii_fold_eq b a"
  by (simp add: ascii_fold_eq_def min.commute max.commute)

lemma EqualFold_ascii_sym: "EqualFold_ascii s t = EqualFold_ascii t s"
  by (induction s t rule: EqualFold_ascii.induct) (simp_all add: ascii_fold_eq_sym)

theorem AddRoleTable_invariant_witness:
  "(\<forall>s t. EqualFold_ascii s t = EqualFold_ascii t s) \<and>
   config_inv EqualFold_ascii conf_roles \<and>
   role_at EqualFold_ascii (Roles conf_roles) ''USER'' 0 \<and>
   table_at EqualFold_ascii (Tables (Roles conf_roles ! 0)) ''Users'' ''Public'' 0 \<and>
   config_inv EqualFold_ascii
     (fst (AddRoleTable EqualFold_ascii conf_roles ''USER'' ''Public.Users'' (ConfQuery query_policy))) \<and>
   AddRoleTable EqualFold_ascii conf_roles ''USER'' ''Public.Users'' (ConfQuery query_policy) =
     (conf_roles\<lparr>Roles :=
        [\<lparr>Role.Name = ''user'', Match = '''',
          Tables = [users_table\<lparr>Query := Some query_policy\<rparr>, posts_table]\<rparr>,
         \<lparr>Role.Name = ''admin'', Match = '''', Tables = [audit_table]\<rparr>]\<rparr>, None) \<and>
   config_inv EqualFold_ascii
     (fst (AddRoleTable EqualFold_ascii conf_roles ''guest'' ''posts'' (ConfDelete delete_policy))) \<and>
   AddRoleTable EqualFold_ascii conf_roles ''guest'' ''posts'' (ConfDelete delete_policy) =
     (conf_roles\<lparr>Roles := Roles conf_roles @
        [\<lparr>Role.Name = ''guest'', Match = '''',
          Tables = [\<lparr>RoleTable.Name = ''posts'', Schema = '''', ReadOnly = False,
                     Query = None, Insert = None, Update = None, Upsert = None,
                     Delete = Some delete_policy\<rparr>]\<rparr>]\<rparr>, None) \<and>
   AddRoleTable EqualFold_ascii conf_roles ''Admin'' ''public.audit'' ConfOther =
     (conf_roles\<lparr>Roles :=
        [\<lparr>Role.Name = ''user'', Match = '''', Tables = [users_table, posts_table]\<rparr>,
         \<lparr>Role.Name = ''admin'', Match = '''',
          Tables = [audit_table,
                    \<lparr>RoleTable.Name = ''audit'', Schema = ''public'', ReadOnly = False,
                     Query = None, Insert = None, Update = None, Upsert = None,
                     Delete = None\<rparr>]\<rparr>]\<rparr>, Some UnsupportedObjectType)"
proof -
  have sym: "\<forall>s t. EqualFold_ascii s t = EqualFold_ascii t s"
    using EqualFold_ascii_sym by blast
  have st: "schema_table ''Public.Users'' = (''Public'', ''Users'')"
    "schema_table ''posts'' = ('''', ''posts'')"
    "schema_table ''public.audit'' = (''public'', ''audit'')"
    by (simp_all add: schema_table_def SplitN2_def)
  have tabs: "Tables (Roles conf_roles ! 0) = [users_table, posts_table]"
    "Roles conf_roles ! 0 = \<lparr>Role.Name = ''user'', Match = '''', Tables = [users_table, posts_table]\<rparr>"
    "Tables (Roles conf_roles ! Suc 0) = [audit_table]"
    "Roles conf_roles ! Suc 0 = \<lparr>Role.Name = ''admin'', Match = '''', Tables = [audit_table]\<rparr>"
    by (simp_all add: conf_roles_def)
  have inv: "config_inv EqualFold_ascii conf_roles"
    by (simp add: config_inv_def roles_unique_def tables_unique_def conf_roles_def conf0_def
        users_table_def posts_table_def audit_table_def new_table_def ascii_fold_eq_def
        All_less_Suc less_Suc_eq)
  have r0: "role_at EqualFold_ascii (Roles conf_roles) ''USER'' 0"
    by (simp add: role_at_def conf_roles_def ascii_fold_eq_def)
  have t0: "table_at EqualFold_ascii (Tables (Roles conf_roles ! 0)) ''Users'' ''Public'' 0"
    by (simp add: tabs table_at_def table_matches_def users_table_def new_table_def ascii_fold_eq_def)
  have ng: "\<forall>r \<in> set (Roles conf_roles). \<not> EqualFold_ascii (Role.Name r) ''guest''"
    by (simp add: conf_roles_def ascii_fold_eq_def)
  have r1: "role_at EqualFold_ascii (Roles conf_roles) ''Admin'' (Suc 0)"
    by (simp add: role_at_def conf_roles_def ascii_fold_eq_def)
  have n1: "\<forall>t \<in> set (Tables (Roles conf_roles ! Suc 0)).
              \<not> table_matches EqualFold_ascii t ''audit'' ''public''"
    by (simp add: tabs table_matches_def audit_table_def new_table_def ascii_fold_eq_def)
  note a = AddRoleTable_invariant [OF sym inv, where role = "''USER''" and table = "''Public.Users''" and cf = "ConfQuery query_policy",
      unfolded Let_def st fst_conv snd_conv]
  note b = AddRoleTable_invariant [OF sym inv, where role = "''guest''" and table = "''posts''" and cf = "ConfDelete delete_policy",
      unfolded Let_def st fst_conv snd_conv]
  note c = AddRoleTable_invariant [OF sym inv, where role = "''Admin''" and table = "''public.audit''" and cf = ConfOther,
      unfolded Let_def st fst_conv snd_conv]
  have a1: "config_inv EqualFold_ascii
     (fst (AddRoleTable EqualFold_ascii conf_roles ''USER'' ''Public.Users'' (ConfQuery query_policy)))"
    using a by blast
  have b1: "config_inv EqualFold_ascii
     (fst (AddRoleTable EqualFold_ascii conf_roles ''guest'' ''posts'' (ConfDelete delete_policy)))"
    using b by blast
  have a2: "AddRoleTable EqualFold_ascii conf_roles ''USER'' ''Public.Users'' (ConfQuery query_policy) =
     (conf_roles\<lparr>Roles :=
        [\<lparr>Role.Name = ''user'', Match = '''',
          Tables = [users_table\<lparr>Query := Some query_policy\<rparr>, posts_table]\<rparr>,
         \<lparr>Role.Name = ''admin'', Match = '''', Tables = [audit_table]\<rparr>]\<rparr>, None)"
    using a r0 t0 by (simp add: tabs conf_roles_def prod_eq_iff)
  have b2: "AddRoleTable EqualFold_ascii conf_roles ''guest'' ''posts'' (ConfDelete delete_policy) =
     (conf_roles\<lparr>Roles := Roles conf_roles @
        [\<lparr>Role.Name = ''guest'', Match = '''',
          Tables = [\<lparr>RoleTable.Name = ''posts'', Schema = '''', ReadOnly = False,
                     Query = None, Insert = None, Update = None, Upsert = None,
                     Delete = Some delete_policy\<rparr>]\<rparr>]\<rparr>, None)"
    using b ng by (simp add: prod_eq_iff)
  have c2: "AddRoleTable EqualFold_ascii conf_roles ''Admin'' ''public.audit'' ConfOther =
     (conf_roles\<lparr>Roles :=
        [\<lparr>Role.Name = ''user'', Match = '''', Tables = [users_table, posts_table]\<rparr>,
         \<lparr>Role.Name = ''admin'', Match = '''',
          Tables = [audit_table,
                    \<lparr>RoleTable.Name = ''audit'', Schema = ''public'', ReadOnly = False,
                     Query = None, Insert = None, Update = None, Upsert = None,
                     Delete = None\<rparr>]\<rparr>]\<rparr>, Some UnsupportedObjectType)"
    using c r1 n1 by (simp add: tabs conf_roles_def prod_eq_iff)
  show ?thesis
    using sym inv r0 t0 a1 a2 b1 b2 c2 by simp
qed

subsection \<open>Configuration inheritance\<close>

lemma ReadInConfig_reread:
  assumes "ReadInConfig w vi = Inr vi1"
  shows "readConfigFile w (configFile vi1) = Inr (config vi1)"
  using assms
  by (auto simp: ReadInConfig_def getConfigFile_def split: sum.splits if_splits)

lemma MergeInConfig_over:
  assumes "file \<noteq> ''''" and "readConfigFile w file = Inr cfg"
  shows "MergeInConfig w (SetConfigFile vi file) = Inr (vi\<lparr>configFile := file, config := config vi ++ cfg\<rparr>)"
  using assms by (simp add: MergeInConfig_def SetConfigFile_def getConfigFile_def)

text \<open>
  C9. \<^verbatim>\<open>readInConfig\<close> supports exactly one level of inheritance. Once the
  file it is given has been read: without an \<open>inherits\<close> key the settings of
  that file are decoded. With one, the named file is read; if that file has a
  non-empty \<open>inherits\<close> key itself, the result is the error "inherited config
  cannot itself inherit" and no configuration. Otherwise the settings decoded
  are the inherited file's with the original file (read from its path) merged
  over them: every key of the original file keeps the original file's value,
  and every other key has the inherited file's value.
\<close>

theorem readInConfig_inheritance:
  assumes "ReadInConfig w (newViper w (filepath_Dir w cfile) (filepath_Base w cfile)) = Inr vi1"
  shows "(GetString vi1 ''inherits'' = '''' \<longrightarrow> readInConfig w cfile = decode_config w vi1) \<and>
    (GetString vi1 ''inherits'' \<noteq> '''' \<longrightarrow>
       (\<forall>vi2. ReadInConfig w (newViper w (filepath_Dir w cfile) (GetString vi1 ''inherits'')) = Inr vi2 \<longrightarrow>
          (GetString vi2 ''inherits'' \<noteq> '''' \<longrightarrow>
             readInConfig w cfile =
               Inl (InheritedCannotInherit (GetString vi1 ''inherits'') (GetString vi2 ''inherits''))) \<and>
          (GetString vi2 ''inherits'' = '''' \<longrightarrow> configFile vi1 \<noteq> '''' \<longrightarrow>
             readInConfig w cfile =
               decode_config w (vi2\<lparr>configFile := configFile vi1, config := config vi2 ++ config vi1\<rparr>) \<and>
             (\<forall>k v. config vi1 k = Some v \<longrightarrow> (config vi2 ++ config vi1) k = Some v) \<and>
             (\<forall>k. config vi1 k = None \<longrightarrow> (config vi2 ++ config vi1) k = config vi2 k))))"
proof (intro conjI allI impI)
  assume "GetString vi1 ''inherits'' = ''''"
  with assms show "readInConfig w cfile = decode_config w vi1"
    by (simp add: readInConfig_def Let_def)
next
  fix vi2
  assume "GetString vi1 ''inherits'' \<noteq> ''''"
    and "ReadInConfig w (newViper w (filepath_Dir w cfile) (GetString vi1 ''inherits'')) = Inr vi2"
    and "GetString vi2 ''inherits'' \<noteq> ''''"
  with assms show "readInConfig w cfile =
      Inl (InheritedCannotInherit (GetString vi1 ''inherits'') (GetString vi2 ''inherits''))"
    by (simp add: readInConfig_def Let_def)
next
  fix vi2
  assume inh: "GetString vi1 ''inherits'' \<noteq> ''''"
    and par: "ReadInConfig w (newViper w (filepath_Dir w cfile) (GetString vi1 ''inherits'')) = Inr vi2"
    and top: "GetString vi2 ''inherits'' = ''''"
    and path: "configFile vi1 \<noteq> ''''"
  have "MergeInConfig w (SetConfigFile vi2 (configFile vi1)) =
          Inr (vi2\<lparr>configFile := configFile vi1, config := config vi2 ++ config vi1\<rparr>)"
    using path ReadInConfig_reread [OF assms] by (rule MergeInConfig_over)
  with assms inh par top
  show "readInConfig w cfile =
      decode_config w (vi2\<lparr>configFile := configFile vi1, config := config vi2 ++ config vi1\<rparr>)"
    by (simp add: readInConfig_def Let_def)
next
  fix vi2 k v
  assume "config vi1 k = Some v"
  then show "(config vi2 ++ config vi1) k = Some v"
    by (simp add: map_add_Some_iff)
next
  fix vi2 k
  assume "config vi1 k = None"
  then show "(config vi2 ++ config vi1) k = config vi2 k"
    by (simp add: map_add_def)
qed

theorem readInConfig_inheritance_witness:
  "ReadInConfig sys0 (newViper sys0 (filepath_Dir sys0 ''config/prod.yml'')
       (filepath_Base sys0 ''config/prod.yml'')) = Inr vi_prod \<and>
   GetString vi_prod ''inherits'' = ''base.yml'' \<and>
   ReadInConfig sys0 (newViper sys0 (filepath_Dir sys0 ''config/prod.yml'') ''base.yml'') = Inr vi_base \<and>
   GetString vi_base ''inherits'' = '''' \<and>
   GetString vi_base ''db_type'' = ''postgres'' \<and>
   GetString vi_prod ''db_type'' = ''mysql'' \<and>
   readInConfig sys0 ''config/prod.yml'' = Inr ((zero_Config ''config'')\<lparr>DBType := ''mysql''\<rparr>) \<and>
   ReadInConfig sys0 (newViper sys0 (filepath_Dir sys0 ''config/stage.yml'')
       (filepath_Base sys0 ''config/stage.yml'')) = Inr vi_stage \<and>
   GetString vi_stage ''inherits'' = ''prod.yml'' \<and>
   ReadInConfig sys0 (newViper sys0 (filepath_Dir sys0 ''config/stage.yml'') ''prod.yml'') = Inr vi_prod \<and>
   readInConfig sys0 ''config/stage.yml'' = Inl (InheritedCannotInherit ''prod.yml'' ''base.yml'')"
proof -
  have r1: "ReadInConfig sys0 (newViper sys0 (filepath_Dir sys0 ''config/prod.yml'')
       (filepath_Base sys0 ''config/prod.yml'')) = Inr vi_prod"
    by (simp add: ReadInConfig_def getConfigFile_def newViper_def sys0_def example_files_def vi_prod_def)
  have g1: "GetString vi_prod ''inherits'' = ''base.yml''" "GetString vi_prod ''db_type'' = ''mysql''"
    by (simp_all add: GetString_def vi_prod_def)
  have r2: "ReadInConfig sys0 (newViper sys0 (filepath_Dir sys0 ''config/prod.yml'') ''base.yml'') = Inr vi_base"
    by (simp add: ReadInConfig_def getConfigFile_def newViper_def sys0_def example_files_def vi_base_def)
  have g2: "GetString vi_base ''inherits'' = ''''" "GetString vi_base ''db_type'' = ''postgres''"
    by (simp_all add: GetString_def vi_base_def)
  have f1: "configFile vi_prod \<noteq> ''''"
    by (simp add: vi_prod_def)
  have "readInConfig sys0 ''config/prod.yml'' =
          decode_config sys0 (vi_base\<lparr>configFile := configFile vi_prod,
                                       config := config vi_base ++ config vi_prod\<rparr>)"
    using readInConfig_inheritance [OF r1] g1 r2 g2 f1 by simp
  also have "\<dots> = Inr ((zero_Config ''config'')\<lparr>DBType := ''mysql''\<rparr>)"
    by (simp add: decode_config_def sys0_def vi_prod_def vi_base_def GetString_def zero_Config_def)
  finally have a: "readInConfig sys0 ''config/prod.yml'' = Inr ((zero_Config ''config'')\<lparr>DBType := ''mysql''\<rparr>)" .
  have r3: "ReadInConfig sys0 (newViper sys0 (filepath_Dir sys0 ''config/stage.yml'')
       (filepath_Base sys0 ''config/stage.yml'')) = Inr vi_stage"
    by (simp add: ReadInConfig_def getConfigFile_def newViper_def sys0_def example_files_def vi_stage_def)
  have g3: "GetString vi_stage ''inherits'' = ''prod.yml''"
    by (simp add: GetString_def vi_stage_def)
  have r4: "ReadInConfig sys0 (newViper sys0 (filepath_Dir sys0 ''config/stage.yml'') ''prod.yml'') = Inr vi_prod"
    by (simp add: ReadInConfig_def getConfigFile_def newViper_def sys0_def example_files_def vi_prod_def)
  have b: "readInConfig sys0 ''config/stage.yml'' = Inl (InheritedCannotInherit ''prod.yml'' ''base.yml'')"
    using readInConfig_inheritance [OF r3] g3 r4 g1 by simp
  show ?thesis
    using r1 g1 r2 g2 a r3 g3 r4 b by simp
qed

end
